theory Spec2Isabelle
  imports Main
begin

section \<open>JavaScript strings\<close>

text \<open>
  A JavaScript string is a sequence of UTF-16 code units. A code unit is modelled as a
  natural number (a genuine string only holds values below 65536), so that the character
  classes of the source's regular expressions, \<^verbatim>\<open>String.prototype.trim\<close> and the
  \<^verbatim>\<open>\uXXXX\<close> escapes of JSON mean what they mean in the engine. \<open>js\<close> embeds an
  ASCII literal.
\<close>

type_synonym jsstring = "nat list"

primrec js :: "string \<Rightarrow> jsstring" where
  "js [] = []"
| "js (c # cs) = of_char c # js cs"

declare js.simps [simp del]

lemma js_eq_Nil [simp]: "js s = [] \<longleftrightarrow> s = []"
  by (cases s) (simp_all add: js.simps)

definition isLineTerminator :: "nat \<Rightarrow> bool" where
  \<comment> \<open>LF, CR, LS, PS: the code units the pattern character \<^verbatim>\<open>.\<close> does not match.\<close>
  "isLineTerminator c = (c = 10 \<or> c = 13 \<or> c = 8232 \<or> c = 8233)"

definition isWhiteSpace :: "nat \<Rightarrow> bool" where
  \<comment> \<open>What \<^verbatim>\<open>trim()\<close> strips: WhiteSpace (TAB, VT, FF, SP, NBSP, ZWNBSP and the
      space separators) and LineTerminator.\<close>
  "isWhiteSpace c =
     (c = 9 \<or> c = 11 \<or> c = 12 \<or> c = 32 \<or> c = 160 \<or> c = 5760 \<or> (8192 \<le> c \<and> c \<le> 8202) \<or>
      c = 8239 \<or> c = 8287 \<or> c = 12288 \<or> c = 65279 \<or> isLineTerminator c)"

definition isDigit :: "nat \<Rightarrow> bool" where
  \<comment> \<open>\<^verbatim>\<open>\d\<close> without the unicode flag: the ten ASCII digits.\<close>
  "isDigit c = (48 \<le> c \<and> c \<le> 57)"

definition isDigitOrDot :: "nat \<Rightarrow> bool" where
  \<comment> \<open>The class \<^verbatim>\<open>[\d.]\<close>.\<close>
  "isDigitOrDot c = (isDigit c \<or> c = 46)"

fun starts_with :: "jsstring \<Rightarrow> jsstring \<Rightarrow> bool" where
  "starts_with [] s = True"
| "starts_with (p # ps) [] = False"
| "starts_with (p # ps) (c # cs) = (p = c \<and> starts_with ps cs)"

definition strip_prefix :: "jsstring \<Rightarrow> jsstring \<Rightarrow> jsstring option" where
  \<comment> \<open>A literal piece of a pattern, matched at the current position: what follows it.\<close>
  "strip_prefix p s = (if starts_with p s then Some (drop (length p) s) else None)"

fun indexOf :: "jsstring \<Rightarrow> jsstring \<Rightarrow> nat option" where
  \<comment> \<open>\<^verbatim>\<open>s.indexOf(p)\<close>, with \<open>None\<close> for -1.\<close>
  "indexOf p [] = (if p = [] then Some 0 else None)"
| "indexOf p (c # cs) =
     (if starts_with p (c # cs) then Some 0 else map_option Suc (indexOf p cs))"

definition includes_str :: "jsstring \<Rightarrow> jsstring \<Rightarrow> bool" where
  \<comment> \<open>\<^verbatim>\<open>s.includes(p)\<close>.\<close>
  "includes_str p s = (indexOf p s \<noteq> None)"

definition replace_str :: "jsstring \<Rightarrow> jsstring \<Rightarrow> jsstring \<Rightarrow> jsstring" where
  \<comment> \<open>\<^verbatim>\<open>s.replace(p, r)\<close> for a string pattern \<open>p\<close> and a replacement \<open>r\<close> without
      \<^verbatim>\<open>$\<close>: only the first occurrence is replaced.\<close>
  "replace_str p r s =
     (case indexOf p s of None \<Rightarrow> s | Some i \<Rightarrow> take i s @ r @ drop (i + length p) s)"

lemma starts_with_length: "starts_with p t \<Longrightarrow> length p \<le> length t"
  by (induction p t rule: starts_with.induct) auto

lemma indexOf_bound: "indexOf p s = Some i \<Longrightarrow> i + length p \<le> length s"
proof (induction s arbitrary: i)
  case Nil
  then show ?case by (simp split: if_splits)
next
  case (Cons c cs)
  show ?case
  proof (cases "starts_with p (c # cs)")
    case True
    with Cons.prems starts_with_length [OF True] show ?thesis by simp
  next
    case False
    with Cons.prems obtain j where "indexOf p cs = Some j" "i = Suc j" by auto
    with Cons.IH show ?thesis by fastforce
  qed
qed

function split_str :: "jsstring \<Rightarrow> jsstring \<Rightarrow> jsstring list" where
  \<comment> \<open>\<^verbatim>\<open>s.split(sep)\<close> for a string separator.\<close>
  "split_str sep s =
     (if sep = [] then map (\<lambda>c. [c]) s
      else case indexOf sep s of
             None \<Rightarrow> [s]
           | Some i \<Rightarrow> take i s # split_str sep (drop (i + length sep) s))"
  by pat_completeness auto
termination
proof (relation "measure (\<lambda>(sep, s). length s)")
  show "wf (measure (\<lambda>(sep, s). length s))" by simp
next
  fix sep s :: jsstring and i
  assume "sep \<noteq> []" "indexOf sep s = Some i"
  then have "i + length sep \<le> length s" "0 < length sep"
    using indexOf_bound by auto
  then have "length (drop (i + length sep) s) < length s"
    by (simp only: length_drop)
  then show "((sep, drop (i + length sep) s), (sep, s)) \<in> measure (\<lambda>(sep, s). length s)"
    by simp
qed

definition trim :: "jsstring \<Rightarrow> jsstring" where
  \<comment> \<open>\<^verbatim>\<open>s.trim()\<close>.\<close>
  "trim s = rev (dropWhile isWhiteSpace (rev (dropWhile isWhiteSpace s)))"

section \<open>Regular expressions of the source\<close>

text \<open>
  Each regular expression literal of \<^verbatim>\<open>src/index.ts\<close> is a function that tries the
  pattern at the head of its argument (the engine's match at one start position, with
  its greedy, lazy and alternative choices in the engine's backtracking order);
  \<open>exec_from\<close> is the engine's loop over the start positions, leftmost first.
\<close>

fun exec_from :: "(jsstring \<Rightarrow> 'a option) \<Rightarrow> jsstring \<Rightarrow> 'a option" where
  "exec_from m [] = m []"
| "exec_from m (c # cs) =
     (case m (c # cs) of Some r \<Rightarrow> Some r | None \<Rightarrow> exec_from m cs)"

fun replace_first :: "(jsstring \<Rightarrow> nat option) \<Rightarrow> jsstring \<Rightarrow> jsstring \<Rightarrow> jsstring" where
  \<comment> \<open>\<^verbatim>\<open>s.replace(/re/, rep)\<close>: \<open>m\<close> gives the length of the match at a position;
      \<open>rep\<close> holds no \<^verbatim>\<open>$\<close>.\<close>
  "replace_first m rep [] = (case m [] of Some n \<Rightarrow> rep | None \<Rightarrow> [])"
| "replace_first m rep (c # cs) =
     (case m (c # cs) of
        Some n \<Rightarrow> rep @ drop n (c # cs)
      | None \<Rightarrow> c # replace_first m rep cs)"

fun replace_all :: "(jsstring \<Rightarrow> nat option) \<Rightarrow> jsstring \<Rightarrow> jsstring \<Rightarrow> jsstring" where
  \<comment> \<open>\<^verbatim>\<open>s.replace(/re/g, rep)\<close>: after a match the search resumes behind it (one
      code unit further after an empty match).\<close>
  "replace_all m rep [] = (case m [] of Some n \<Rightarrow> rep | None \<Rightarrow> [])"
| "replace_all m rep (c # cs) =
     (case m (c # cs) of
        Some (Suc n) \<Rightarrow> rep @ replace_all m rep (drop n cs)
      | Some 0 \<Rightarrow> rep @ c # replace_all m rep cs
      | None \<Rightarrow> c # replace_all m rep cs)"

definition attr_at :: "jsstring \<Rightarrow> jsstring \<Rightarrow> jsstring option" where
  \<comment> \<open>\<^verbatim>\<open>name="([\d.]+)"\<close> at one position, giving group 1. The greedy class takes the
      whole run of digits and dots; a shorter run is followed by a digit or a dot, never
      by the closing quote, so backtracking into the run cannot succeed.\<close>
  "attr_at name s =
     (case strip_prefix (name @ js ''=\"'') s of
        None \<Rightarrow> None
      | Some r \<Rightarrow>
          (let ds = takeWhile isDigitOrDot r; rest = dropWhile isDigitOrDot r
           in if ds \<noteq> [] \<and> starts_with (js ''\"'') rest then Some ds else None))"

definition startRegex :: "jsstring \<Rightarrow> jsstring option" where
  \<comment> \<open>\<^verbatim>\<open>/start="([\d.]+)"/.exec(line)\<close>: group 1, or \<open>None\<close> for null.\<close>
  "startRegex line = exec_from (attr_at (js ''start'')) line"

definition durRegex :: "jsstring \<Rightarrow> jsstring option" where
  \<comment> \<open>\<^verbatim>\<open>/dur="([\d.]+)"/.exec(line)\<close>.\<close>
  "durRegex line = exec_from (attr_at (js ''dur'')) line"

fun backtrack_gt :: "nat \<Rightarrow> jsstring \<Rightarrow> nat option" where
  \<comment> \<open>The greedy \<^verbatim>\<open>.+\<close> gives back one code unit at a time until \<^verbatim>\<open>>\<close> follows:
      the number of code units it keeps (at least one).\<close>
  "backtrack_gt 0 r = None"
| "backtrack_gt (Suc n) r =
     (if Suc n < length r \<and> r ! Suc n = 62 then Some (Suc n) else backtrack_gt n r)"

definition text_tag_at :: "jsstring \<Rightarrow> nat option" where
  \<comment> \<open>\<^verbatim>\<open><text.+>\<close> at one position: the length of the match.\<close>
  "text_tag_at s =
     (case strip_prefix (js ''<text'') s of
        None \<Rightarrow> None
      | Some r \<Rightarrow>
          map_option (\<lambda>n. 5 + n + 1)
            (backtrack_gt (length (takeWhile (\<lambda>c. \<not> isLineTerminator c) r)) r))"

definition amp_at :: "jsstring \<Rightarrow> nat option" where
  \<comment> \<open>\<^verbatim>\<open>&amp;\<close> with the flag \<^verbatim>\<open>i\<close> at one position: each letter in either case.\<close>
  "amp_at s =
     (case s of
        a # b # c # d # e # _ \<Rightarrow>
          if a = 38 \<and> (b = 97 \<or> b = 65) \<and> (c = 109 \<or> c = 77) \<and> (d = 112 \<or> d = 80) \<and> e = 59
          then Some 5 else None
      | _ \<Rightarrow> None)"

definition tag_rest :: "jsstring \<Rightarrow> nat option" where
  \<comment> \<open>\<^verbatim>\<open>[^>]+(>|$)\<close> at one position: the greedy class takes the whole run up to the
      next \<^verbatim>\<open>>\<close> or the end of the input, where the group then succeeds.\<close>
  "tag_rest r =
     (let run = takeWhile (\<lambda>c. c \<noteq> 62) r
      in if run = [] then None
         else Some (length run + (if length run < length r then 1 else 0)))"

definition tag_at :: "jsstring \<Rightarrow> nat option" where
  \<comment> \<open>\<^verbatim>\<open><\/?[^>]+(>|$)\<close> at one position: the optional slash is taken first, and given
      back when nothing is left for the class.\<close>
  "tag_at s =
     (case s of
        [] \<Rightarrow> None
      | c # r \<Rightarrow>
          if c \<noteq> 60 then None
          else (case (case r of [] \<Rightarrow> None | d # r' \<Rightarrow> if d = 47 then tag_rest r' else None) of
                  Some n \<Rightarrow> Some (2 + n)
                | None \<Rightarrow> map_option Suc (tag_rest r)))"

fun alt2_at :: "nat \<Rightarrow> jsstring \<Rightarrow> jsstring option" where
  \<comment> \<open>The second alternative \<^verbatim>\<open>[^"]*[^&]quot;[^"]*\<close> and the closing \<^verbatim>\<open>">\<close>, once the
      first class has taken \<open>k\<close> code units: one code unit other than \<^verbatim>\<open>&\<close>, the
      literal, the whole next run of non-quotes. Group 1 is the result.\<close>
  "alt2_at k r =
     (case drop k r of
        [] \<Rightarrow> None
      | c # r' \<Rightarrow>
          if c \<noteq> 38 \<and> starts_with (js ''quot;'') r'
          then (let rest = drop 5 r';
                    b = takeWhile (\<lambda>c. c \<noteq> 34) rest;
                    r2 = dropWhile (\<lambda>c. c \<noteq> 34) rest
                in if starts_with (js ''\">'') r2
                   then Some (take k r @ [c] @ js ''quot;'' @ b) else None)
          else None)"

fun alt2 :: "nat \<Rightarrow> jsstring \<Rightarrow> jsstring option" where
  \<comment> \<open>The greedy first class of the second alternative gives back one code unit at a
      time, from \<open>k\<close> down to none.\<close>
  "alt2 0 r = alt2_at 0 r"
| "alt2 (Suc k) r = (case alt2_at (Suc k) r of Some g \<Rightarrow> Some g | None \<Rightarrow> alt2 k r)"

definition meta_at :: "jsstring \<Rightarrow> jsstring \<Rightarrow> jsstring option" where
  \<comment> \<open>\<^verbatim>\<open><meta name="NAME" content="([^"]*|[^"]*[^&]quot;[^"]*)">\<close> at one position,
      giving group 1. The first alternative is the whole run of non-quotes (a shorter run
      is followed by a non-quote, not by the closing quote); only when \<^verbatim>\<open>">\<close> does
      not follow it is the second alternative tried.\<close>
  "meta_at name s =
     (case strip_prefix (js ''<meta name=\"'' @ name @ js ''\" content=\"'') s of
        None \<Rightarrow> None
      | Some r \<Rightarrow>
          (let a = takeWhile (\<lambda>c. c \<noteq> 34) r; r1 = dropWhile (\<lambda>c. c \<noteq> 34) r
           in if starts_with (js ''\">'') r1 then Some a else alt2 (length a) r))"

definition metaRegex :: "jsstring \<Rightarrow> jsstring \<Rightarrow> jsstring option" where
  \<comment> \<open>\<^verbatim>\<open>data.match(/<meta name="NAME" content="(...)">/)\<close>: group 1 of the match, or
      \<open>None\<close> for null.\<close>
  "metaRegex name data = exec_from (meta_at name) data"

fun lazy_to_bracket :: "jsstring \<Rightarrow> jsstring option" where
  \<comment> \<open>\<^verbatim>\<open>.*?\]\<close>: the lazy star takes one more code unit (no line terminator) only while
      the closing bracket does not follow. The result is the text matched.\<close>
  "lazy_to_bracket [] = None"
| "lazy_to_bracket (c # cs) =
     (if c = 93 then Some [c]
      else if isLineTerminator c then None
      else map_option (Cons c) (lazy_to_bracket cs))"

definition captionTracks_at :: "jsstring \<Rightarrow> jsstring option" where
  \<comment> \<open>\<^verbatim>\<open>"captionTracks":(\[.*?\])\<close> at one position, giving group 1.\<close>
  "captionTracks_at s =
     (case strip_prefix (js ''\"captionTracks\":['') s of
        None \<Rightarrow> None
      | Some r \<Rightarrow> map_option (Cons 91) (lazy_to_bracket r))"

definition captionTracksRegex :: "jsstring \<Rightarrow> jsstring option" where
  \<comment> \<open>\<^verbatim>\<open>/"captionTracks":(\[.*?\])/.exec(data)\<close>.\<close>
  "captionTracksRegex data = exec_from captionTracks_at data"

definition isSyntaxCharacter :: "nat \<Rightarrow> bool" where
  \<comment> \<open>The code units that are not plain pattern characters:
      \<^verbatim>\<open>^ $ \ . * + ? ( ) [ ] { } |\<close>.\<close>
  "isSyntaxCharacter c =
     (c \<in> set [94, 36, 92, 46, 42, 43, 63, 40, 41, 91, 93, 123, 125, 124])"

definition dot_literal_at :: "jsstring \<Rightarrow> jsstring \<Rightarrow> unit option" where
  \<comment> \<open>The pattern \<^verbatim>\<open>.\<close> followed by the plain characters \<open>lit\<close>, at one position.\<close>
  "dot_literal_at lit s =
     (case s of
        [] \<Rightarrow> None
      | c # r \<Rightarrow> if \<not> isLineTerminator c \<and> starts_with lit r then Some () else None)"

section \<open>Values, errors and the outside world\<close>

datatype error = Error jsstring | SyntaxError | TypeError

text \<open>
  A value of \<^verbatim>\<open>JSON.parse\<close>. A number keeps its decimal reading \<open>m * 10 ^ e\<close>;
  \<^verbatim>\<open>undefined\<close> is \<open>None\<close> of \<open>json option\<close>.
\<close>

datatype json =
    JNull
  | JBool bool
  | JNumber int int
  | JString jsstring
  | JArray "json list"
  | JObject "(jsstring \<times> json) list"

definition number_nonzero :: "int \<Rightarrow> int \<Rightarrow> bool" where
  \<comment> \<open>The double nearest to \<open>m * 10 ^ e\<close> is not zero: the magnitude exceeds half the
      least subnormal, \<open>2 ^ -1075\<close> (the tie rounds to even, that is to zero).\<close>
  "number_nonzero m e = (m \<noteq> 0 \<and> (0 \<le> e \<or> 10 ^ nat (- e) < \<bar>m\<bar> * 2 ^ 1075))"

fun truthy :: "json \<Rightarrow> bool" where
  "truthy JNull = False"
| "truthy (JBool b) = b"
| "truthy (JNumber m e) = number_nonzero m e"
| "truthy (JString s) = (s \<noteq> [])"
| "truthy (JArray xs) = True"
| "truthy (JObject kvs) = True"

definition truthy_u :: "json option \<Rightarrow> bool" where
  "truthy_u v = (case v of None \<Rightarrow> False | Some x \<Rightarrow> truthy x)"

fun get_prop :: "json \<Rightarrow> jsstring \<Rightarrow> json option" where
  \<comment> \<open>\<^verbatim>\<open>v.key\<close> for a \<open>v\<close> other than null and a key that no prototype defines (the
      source reads \<^verbatim>\<open>vssId\<close> and \<^verbatim>\<open>baseUrl\<close>): an object's own property, the last
      of a repeated key; \<^verbatim>\<open>undefined\<close> on every other value.\<close>
  "get_prop (JObject kvs) k = map_of (rev kvs) k"
| "get_prop v k = None"

definition member :: "json \<Rightarrow> jsstring \<Rightarrow> error + json option" where
  \<comment> \<open>\<^verbatim>\<open>track.key\<close>: reading a property of null throws.\<close>
  "member v k = (if v = JNull then Inl TypeError else Inr (get_prop v k))"

record Subtitle =
  start :: jsstring
  dur :: jsstring
  text' :: jsstring

record VideoDetails =
  title :: jsstring
  description :: jsstring
  subtitles :: "Subtitle list"

record Options =
  videoID :: jsstring
  lang :: "jsstring option"
  proxyURL :: "jsstring option"

record Response =
  ok :: bool
  body :: "error + jsstring"

text \<open>
  What the module imports or finds in its global scope is a parameter of the model:
  \<^item> \<open>fetch\<close>: the global \<^verbatim>\<open>fetch(x)\<close>, an error when the promise rejects; the
    response's \<open>body\<close> is what \<^verbatim>\<open>response.text()\<close> resolves to;
  \<^item> \<open>NodeFetch target proxy\<close>: \<^verbatim>\<open>NodeFetch(target, {agent})\<close> with the agent of
    that proxy; \<open>HttpsProxyAgent\<close>: the error the agent's constructor throws, if any;
  \<^item> \<open>he_decode\<close> and \<open>striptags\<close>: the functions of the packages \<^verbatim>\<open>he\<close> and
    \<^verbatim>\<open>striptags\<close>;
  \<^item> \<open>RegExp_match p s\<close>: whether \<^verbatim>\<open>s.match(p)\<close> finds a match, for a pattern
    string \<open>p\<close> that the model does not read itself (an error when the pattern does
    not compile).
\<close>

record env =
  fetch :: "json \<Rightarrow> error + Response"
  NodeFetch :: "jsstring \<Rightarrow> jsstring \<Rightarrow> error + Response"
  HttpsProxyAgent :: "jsstring \<Rightarrow> error option"
  he_decode :: "jsstring \<Rightarrow> jsstring"
  striptags :: "jsstring \<Rightarrow> jsstring"
  RegExp_match :: "jsstring \<Rightarrow> jsstring \<Rightarrow> error + bool"

section \<open>JSON.parse\<close>

text \<open>
  \<^verbatim>\<open>JSON.parse\<close> reads the JSON grammar (ECMA-404): a lexer for its tokens, and an
  automaton with a stack of the open arrays and objects for its values. Either one
  rejecting the text is the \<^verbatim>\<open>SyntaxError\<close> of the engine.
\<close>

datatype token =
    TLBrack | TRBrack | TLBrace | TRBrace | TColon | TComma
  | TString jsstring | TNumber int int | TTrue | TFalse | TNull

definition hex_digit :: "nat \<Rightarrow> nat option" where
  "hex_digit c =
     (if 48 \<le> c \<and> c \<le> 57 then Some (c - 48)
      else if 97 \<le> c \<and> c \<le> 102 then Some (c - 87)
      else if 65 \<le> c \<and> c \<le> 70 then Some (c - 55)
      else None)"

definition escape_char :: "nat \<Rightarrow> nat option" where
  \<comment> \<open>The code unit of a single-character escape:
      \<^verbatim>\<open>\" \\ \/ \b \f \n \r \t\<close>.\<close>
  "escape_char c =
     (if c = 34 \<or> c = 92 \<or> c = 47 then Some c
      else if c = 98 then Some 8
      else if c = 102 then Some 12
      else if c = 110 then Some 10
      else if c = 114 then Some 13
      else if c = 116 then Some 9
      else None)"

definition cons_fst :: "nat \<Rightarrow> (jsstring \<times> jsstring) option \<Rightarrow> (jsstring \<times> jsstring) option" where
  "cons_fst u res = (case res of None \<Rightarrow> None | Some (s, rest) \<Rightarrow> Some (u # s, rest))"

function lex_string :: "jsstring \<Rightarrow> (jsstring \<times> jsstring) option" where
  \<comment> \<open>A string token after its opening quote: its code units, and the input behind the
      closing quote. A control character (below U+0020) must be escaped.\<close>
  "lex_string [] = None"
| "lex_string (c # cs) =
     (if c = 34 then Some ([], cs)
      else if c = 92 then
        (case cs of
           [] \<Rightarrow> None
         | e # r \<Rightarrow>
             if e = 117 then
               (case map hex_digit (take 4 r) of
                  [Some h1, Some h2, Some h3, Some h4] \<Rightarrow>
                    cons_fst (h1 * 4096 + h2 * 256 + h3 * 16 + h4) (lex_string (drop 4 r))
                | _ \<Rightarrow> None)
             else (case escape_char e of
                     None \<Rightarrow> None
                   | Some u \<Rightarrow> cons_fst u (lex_string r)))
      else if c < 32 then None
      else cons_fst c (lex_string cs))"
  by pat_completeness auto
termination
  by (relation "measure length") auto

definition digits_value :: "jsstring \<Rightarrow> int" where
  "digits_value ds = foldl (\<lambda>a c. 10 * a + int (c - 48)) 0 ds"

definition lex_int :: "jsstring \<Rightarrow> (jsstring \<times> jsstring) option" where
  \<comment> \<open>\<^verbatim>\<open>0|[1-9][0-9]*\<close>: the digits, and the input behind them. Digits after a leading
      zero are rejected here (no token can follow a number without a separator, so the
      grammar rejects them as well).\<close>
  "lex_int s =
     (let ip = takeWhile isDigit s
      in if ip = [] \<or> (1 < length ip \<and> hd ip = 48) then None
         else Some (ip, dropWhile isDigit s))"

definition lex_frac :: "jsstring \<Rightarrow> (jsstring \<times> jsstring) option" where
  \<comment> \<open>\<^verbatim>\<open>(\.[0-9]+)?\<close>: the digits of the fraction; a point without digits is
      rejected.\<close>
  "lex_frac s =
     (case s of
        [] \<Rightarrow> Some ([], s)
      | c # r \<Rightarrow>
          if c = 46 then
            (let fp = takeWhile isDigit r
             in if fp = [] then None else Some (fp, dropWhile isDigit r))
          else Some ([], s))"

definition lex_sign :: "jsstring \<Rightarrow> bool \<times> jsstring" where
  \<comment> \<open>\<^verbatim>\<open>[+-]?\<close>: whether the sign is minus.\<close>
  "lex_sign s =
     (case s of
        [] \<Rightarrow> (False, s)
      | c # r \<Rightarrow> if c = 45 then (True, r) else if c = 43 then (False, r) else (False, s))"

definition lex_exp :: "jsstring \<Rightarrow> (int \<times> jsstring) option" where
  \<comment> \<open>\<^verbatim>\<open>([eE][+-]?[0-9]+)?\<close>: the exponent (0 when absent); an exponent mark
      without digits is rejected.\<close>
  "lex_exp s =
     (case s of
        [] \<Rightarrow> Some (0, s)
      | c # r \<Rightarrow>
          if c = 101 \<or> c = 69 then
            (let (neg, r') = lex_sign r; ep = takeWhile isDigit r'
             in if ep = [] then None
                else Some (if neg then - digits_value ep else digits_value ep,
                           dropWhile isDigit r'))
          else Some (0, s))"

definition lex_number :: "jsstring \<Rightarrow> ((int \<times> int) \<times> jsstring) option" where
  \<comment> \<open>A number token
      \<^verbatim>\<open>-?(0|[1-9][0-9]*)(\.[0-9]+)?([eE][+-]?[0-9]+)?\<close>: mantissa and decimal
      exponent, and the input behind it.\<close>
  "lex_number s =
     (let neg = (case s of [] \<Rightarrow> False | c # _ \<Rightarrow> c = 45);
          s1 = (if neg then drop 1 s else s)
      in case lex_int s1 of
           None \<Rightarrow> None
         | Some (ip, s2) \<Rightarrow>
             (case lex_frac s2 of
                None \<Rightarrow> None
              | Some (fp, s3) \<Rightarrow>
                  (case lex_exp s3 of
                     None \<Rightarrow> None
                   | Some (ex, s4) \<Rightarrow>
                       Some ((if neg then - digits_value (ip @ fp) else digits_value (ip @ fp),
                              ex - int (length fp)), s4))))"

lemma cons_fst_length:
  "cons_fst u res = Some (s, rest) \<Longrightarrow> \<exists>s'. res = Some (s', rest)"
  by (auto simp: cons_fst_def split: option.splits)

lemma lex_string_length: "lex_string cs = Some (s, r) \<Longrightarrow> length r < length cs"
proof (induction cs arbitrary: s r rule: lex_string.induct)
  case 1
  then show ?case by simp
next
  case (2 c cs)
  show ?case
  proof (cases "c = 34")
    case True
    with "2.prems" show ?thesis by simp
  next
    case c34: False
    show ?thesis
    proof (cases "c = 92")
      case c92: False
      with c34 "2.prems" have nc: "\<not> c < 32" and
        res: "cons_fst c (lex_string cs) = Some (s, r)" by (auto split: if_splits)
      from cons_fst_length [OF res] obtain s' where "lex_string cs = Some (s', r)" by blast
      with "2.IH"(3) c34 c92 nc show ?thesis by fastforce
    next
      case c92: True
      with c34 "2.prems" obtain e t where cs: "cs = e # t"
        by (cases cs) auto
      show ?thesis
      proof (cases "e = 117")
        case eu: True
        with c34 c92 cs "2.prems" obtain h1 h2 h3 h4 where
          hx: "map hex_digit (take 4 t) = [Some h1, Some h2, Some h3, Some h4]" and
          res: "cons_fst (h1 * 4096 + h2 * 256 + h3 * 16 + h4) (lex_string (drop 4 t)) = Some (s, r)"
          by (auto split: list.splits option.splits)
        from cons_fst_length [OF res] obtain s' where "lex_string (drop 4 t) = Some (s', r)"
          by blast
        with "2.IH"(1) [OF c34 c92 cs eu hx] have "length r < length (drop 4 t)" by blast
        with cs show ?thesis by simp
      next
        case eu: False
        with c34 c92 cs "2.prems" obtain u where
          esc: "escape_char e = Some u" and
          res: "cons_fst u (lex_string t) = Some (s, r)"
          by (auto split: option.splits)
        from cons_fst_length [OF res] obtain s' where "lex_string t = Some (s', r)" by blast
        with "2.IH"(2) [OF c34 c92 cs eu esc] have "length r < length t" by blast
        with cs show ?thesis by simp
      qed
    qed
  qed
qed

lemma lex_int_length: "lex_int s = Some (ip, r) \<Longrightarrow> length r < length s"
proof -
  assume a: "lex_int s = Some (ip, r)"
  then have "takeWhile isDigit s \<noteq> []" and r: "r = dropWhile isDigit s"
    by (auto simp: lex_int_def Let_def split: if_splits)
  then obtain c cs where "s = c # cs" "isDigit c"
    by (cases s) (auto split: if_splits)
  with r show ?thesis
    by (simp add: le_imp_less_Suc length_dropWhile_le)
qed

lemma lex_frac_length: "lex_frac s = Some (fp, r) \<Longrightarrow> length r \<le> length s"
  by (cases s)
    (auto simp: lex_frac_def Let_def le_SucI length_dropWhile_le split: if_splits)

lemma lex_sign_length: "lex_sign s = (b, r) \<Longrightarrow> length r \<le> length s"
  by (cases s) (auto simp: lex_sign_def split: if_splits)

lemma lex_exp_length: "lex_exp s = Some (ex, r) \<Longrightarrow> length r \<le> length s"
proof (cases s)
  case Nil
  assume "lex_exp s = Some (ex, r)"
  with Nil show ?thesis by (simp add: lex_exp_def)
next
  case (Cons c t)
  assume a: "lex_exp s = Some (ex, r)"
  show ?thesis
  proof (cases "c = 101 \<or> c = 69")
    case False
    with a Cons show ?thesis by (auto simp: lex_exp_def)
  next
    case True
    obtain b t' where sg: "lex_sign t = (b, t')" by (cases "lex_sign t")
    with a Cons True have "r = dropWhile isDigit t'"
      by (auto simp: lex_exp_def Let_def split: if_splits)
    then have "length r \<le> length t'" by (simp add: length_dropWhile_le)
    with lex_sign_length [OF sg] Cons show ?thesis by simp
  qed
qed

lemma lex_number_length: "lex_number (c # cs) = Some (v, r) \<Longrightarrow> length r \<le> length cs"
proof -
  assume a: "lex_number (c # cs) = Some (v, r)"
  define s1 where "s1 = (if c = 45 then cs else c # cs)"
  from a obtain ip s2 fp s3 ex where
    i: "lex_int s1 = Some (ip, s2)" and f: "lex_frac s2 = Some (fp, s3)" and
    e: "lex_exp s3 = Some (ex, r)"
    unfolding lex_number_def s1_def by (auto simp: Let_def split: option.splits if_splits)
  have "length s1 \<le> Suc (length cs)" by (simp add: s1_def)
  with lex_int_length [OF i] lex_frac_length [OF f] lex_exp_length [OF e]
  show ?thesis by linarith
qed

function lex :: "jsstring \<Rightarrow> token list option" where
  \<comment> \<open>The tokens of a JSON text; tab, line feed, carriage return and space separate
      them.\<close>
  "lex [] = Some []"
| "lex (c # cs) =
     (if c = 9 \<or> c = 10 \<or> c = 13 \<or> c = 32 then lex cs
      else if c = 91 then map_option (Cons TLBrack) (lex cs)
      else if c = 93 then map_option (Cons TRBrack) (lex cs)
      else if c = 123 then map_option (Cons TLBrace) (lex cs)
      else if c = 125 then map_option (Cons TRBrace) (lex cs)
      else if c = 58 then map_option (Cons TColon) (lex cs)
      else if c = 44 then map_option (Cons TComma) (lex cs)
      else if c = 34 then
        (case lex_string cs of
           None \<Rightarrow> None
         | Some (s, r) \<Rightarrow> map_option (Cons (TString s)) (lex r))
      else if c = 45 \<or> isDigit c then
        (case lex_number (c # cs) of
           None \<Rightarrow> None
         | Some ((m, e), r) \<Rightarrow> map_option (Cons (TNumber m e)) (lex r))
      else if starts_with (js ''true'') (c # cs) then map_option (Cons TTrue) (lex (drop 3 cs))
      else if starts_with (js ''false'') (c # cs) then map_option (Cons TFalse) (lex (drop 4 cs))
      else if starts_with (js ''null'') (c # cs) then map_option (Cons TNull) (lex (drop 3 cs))
      else None)"
  by pat_completeness auto
termination
proof (relation "measure length")
  show "wf (measure length)" by simp
qed (auto dest: lex_string_length lex_number_length simp: le_imp_less_Suc less_SucI)

datatype frame =
    FArr "json list"
  | FObj "(jsstring \<times> json) list" jsstring

fun parse_value :: "frame list \<Rightarrow> token list \<Rightarrow> json option"
  and after_value :: "json \<Rightarrow> frame list \<Rightarrow> token list \<Rightarrow> json option" where
  \<comment> \<open>\<open>parse_value\<close> expects a value; \<open>after_value\<close> has just read one. A frame is an
      open array with its elements so far, or an open object with its members so far and
      the key whose value is being read (both newest first).\<close>
  "parse_value st [] = None"
| "parse_value st (t # ts) =
     (case t of
        TString s \<Rightarrow> after_value (JString s) st ts
      | TNumber m e \<Rightarrow> after_value (JNumber m e) st ts
      | TTrue \<Rightarrow> after_value (JBool True) st ts
      | TFalse \<Rightarrow> after_value (JBool False) st ts
      | TNull \<Rightarrow> after_value JNull st ts
      | TLBrack \<Rightarrow>
          (case ts of
             TRBrack # ts' \<Rightarrow> after_value (JArray []) st ts'
           | _ \<Rightarrow> parse_value (FArr [] # st) ts)
      | TLBrace \<Rightarrow>
          (case ts of
             TRBrace # ts' \<Rightarrow> after_value (JObject []) st ts'
           | TString k # TColon # ts' \<Rightarrow> parse_value (FObj [] k # st) ts'
           | _ \<Rightarrow> None)
      | _ \<Rightarrow> None)"
| "after_value v [] ts = (if ts = [] then Some v else None)"
| "after_value v (f # st) [] = None"
| "after_value v (FArr xs # st) (t # ts) =
     (case t of
        TComma \<Rightarrow> parse_value (FArr (v # xs) # st) ts
      | TRBrack \<Rightarrow> after_value (JArray (rev (v # xs))) st ts
      | _ \<Rightarrow> None)"
| "after_value v (FObj kvs k # st) (t # ts) =
     (case t of
        TComma \<Rightarrow>
          (case ts of
             TString k' # TColon # ts' \<Rightarrow> parse_value (FObj ((k, v) # kvs) k' # st) ts'
           | _ \<Rightarrow> None)
      | TRBrace \<Rightarrow> after_value (JObject (rev ((k, v) # kvs))) st ts
      | _ \<Rightarrow> None)"

definition JSON_parse :: "jsstring \<Rightarrow> error + json" where
  "JSON_parse s =
     (case lex s of
        None \<Rightarrow> Inl SyntaxError
      | Some ts \<Rightarrow>
          (case parse_value [] ts of None \<Rightarrow> Inl SyntaxError | Some v \<Rightarrow> Inr v))"

section \<open>The module \<^verbatim>\<open>src/index.ts\<close>\<close>

definition fetchThroughProxy :: "env \<Rightarrow> jsstring \<Rightarrow> jsstring \<Rightarrow> error + Response" where
  \<comment> \<open>Lines 39-53. The agent is built outside the \<^verbatim>\<open>try\<close>; a rejected fetch and a
      response that is not ok both end in the error of the \<^verbatim>\<open>catch\<close> block.\<close>
  "fetchThroughProxy env targetUrl proxyUrl =
     (case HttpsProxyAgent env proxyUrl of
        Some e \<Rightarrow> Inl e
      | None \<Rightarrow>
          (case NodeFetch env targetUrl proxyUrl of
             Inl e \<Rightarrow>
               Inl (Error (js ''Failed to fetch '' @ targetUrl @ js '' through proxy '' @ proxyUrl))
           | Inr response \<Rightarrow>
               if \<not> ok response
               then Inl (Error (js ''Failed to fetch '' @ targetUrl @ js '' through proxy '' @ proxyUrl))
               else Inr response))"

fun find_js :: "('a \<Rightarrow> error + bool) \<Rightarrow> 'a list \<Rightarrow> error + 'a option" where
  \<comment> \<open>\<^verbatim>\<open>Array.prototype.find\<close> with a callback that may throw: the first element
      whose callback result is truthy, or \<^verbatim>\<open>undefined\<close>.\<close>
  "find_js p [] = Inr None"
| "find_js p (x # xs) =
     (case p x of
        Inl e \<Rightarrow> Inl e
      | Inr b \<Rightarrow> if b then Inr (Some x) else find_js p xs)"

definition string_match :: "env \<Rightarrow> jsstring \<Rightarrow> jsstring \<Rightarrow> error + bool" where
  \<comment> \<open>\<^verbatim>\<open>s.match(`.${lang}`)\<close> as a truth value. The string argument is compiled as a
      regular expression: the dot is the pattern character for any code unit but a line
      terminator. For a \<open>lang\<close> of plain pattern characters the model searches itself;
      any other pattern is left to the engine.\<close>
  "string_match env lang' s =
     (if list_all (\<lambda>c. \<not> isSyntaxCharacter c) lang'
      then Inr (exec_from (dot_literal_at lang') s \<noteq> None)
      else RegExp_match env (46 # lang') s)"

definition vssId_is :: "jsstring \<Rightarrow> json \<Rightarrow> error + bool" where
  \<comment> \<open>The callback \<^verbatim>\<open>(track) => track.vssId === pat\<close>.\<close>
  "vssId_is pat track =
     (case member track (js ''vssId'') of
        Inl e \<Rightarrow> Inl e
      | Inr v \<Rightarrow> Inr (v = Some (JString pat)))"

definition vssId_matches :: "env \<Rightarrow> jsstring \<Rightarrow> json \<Rightarrow> error + bool" where
  \<comment> \<open>The callback \<^verbatim>\<open>(track) => track.vssId && track.vssId.match(`.${lang}`)\<close>: a
      truthy \<^verbatim>\<open>vssId\<close> that is not a string has no callable \<^verbatim>\<open>match\<close>.\<close>
  "vssId_matches env lang' track =
     (case member track (js ''vssId'') of
        Inl e \<Rightarrow> Inl e
      | Inr v \<Rightarrow>
          if \<not> truthy_u v then Inr False
          else (case v of
                  Some (JString s) \<Rightarrow> string_match env lang' s
                | _ \<Rightarrow> Inl TypeError))"

definition optional_baseUrl :: "json option \<Rightarrow> json option" where
  \<comment> \<open>\<^verbatim>\<open>subtitle?.baseUrl\<close>.\<close>
  "optional_baseUrl subtitle =
     (case subtitle of
        None \<Rightarrow> None
      | Some track \<Rightarrow> if track = JNull then None else get_prop track (js ''baseUrl''))"

subsection \<open>getVideoDetails\<close>

definition details_find :: "env \<Rightarrow> jsstring \<Rightarrow> json \<Rightarrow> error + json option" where
  \<comment> \<open>Lines 114-119: the three \<^verbatim>\<open>find\<close> calls joined by \<^verbatim>\<open>||\<close>.\<close>
  "details_find env lang' captionTracks =
     (case captionTracks of
        JArray tracks \<Rightarrow>
          (case find_js (vssId_is (js ''.'' @ lang')) tracks of
             Inl e \<Rightarrow> Inl e
           | Inr r1 \<Rightarrow>
               if truthy_u r1 then Inr r1
               else (case find_js (vssId_is (js ''a.'' @ lang')) tracks of
                       Inl e \<Rightarrow> Inl e
                     | Inr r2 \<Rightarrow>
                         if truthy_u r2 then Inr r2
                         else find_js (vssId_matches env lang') tracks))
      | _ \<Rightarrow> Inl TypeError)"

definition details_line :: "env \<Rightarrow> Subtitle list \<Rightarrow> jsstring \<Rightarrow> Subtitle list" where
  \<comment> \<open>Lines 145-174: the callback of \<^verbatim>\<open>reduce\<close>.\<close>
  "details_line env acc line =
     (let startResult = startRegex line; durResult = durRegex line
      in case startResult of
           None \<Rightarrow> acc
         | Some start' \<Rightarrow>
             (case durResult of
                None \<Rightarrow> acc
              | Some dur' \<Rightarrow>
                  (let htmlText =
                         replace_all tag_at []
                           (replace_all amp_at (js ''&'') (replace_first text_tag_at [] line));
                       decodedText = he_decode env htmlText;
                       text = striptags env decodedText
                   in acc @ [\<lparr>start = start', dur = dur', text' = text\<rparr>])))"

definition details_lines :: "env \<Rightarrow> jsstring \<Rightarrow> Subtitle list" where
  \<comment> \<open>Lines 140-174.\<close>
  "details_lines env transcript =
     foldl (details_line env) []
       (filter (\<lambda>line. line \<noteq> [] \<and> trim line \<noteq> [])
          (split_str (js ''</text>'')
             (replace_str (js ''</transcript>'') []
                (replace_str (js ''<?xml version=\"1.0\" encoding=\"utf-8\" ?><transcript>'') []
                   transcript))))"

definition details_of_page :: "env \<Rightarrow> jsstring \<Rightarrow> jsstring \<Rightarrow> jsstring \<Rightarrow> error + VideoDetails" where
  \<comment> \<open>Lines 66-180: from the text of the page on.\<close>
  "details_of_page env vid lang' data =
     (let titleMatch = metaRegex (js ''title'') data;
          descriptionMatch = metaRegex (js ''description'') data;
          description' =
            (case descriptionMatch of
               None \<Rightarrow> js ''No description found''
             | Some d \<Rightarrow> if d \<noteq> [] then d else js ''No description found'')
      in case titleMatch of
           None \<Rightarrow> Inl (Error (js ''No video found for: '' @ vid))
         | Some t \<Rightarrow>
             if t = [] then Inl (Error (js ''No video found for: '' @ vid))
             else if \<not> includes_str (js ''captionTracks'') data
             then Inr \<lparr>title = t, description = description', subtitles = []\<rparr>
             else
               (case captionTracksRegex data of
                  None \<Rightarrow> Inr \<lparr>title = t, description = description', subtitles = []\<rparr>
                | Some captionTracksJson \<Rightarrow>
                    (case JSON_parse captionTracksJson of
                       Inl e \<Rightarrow> Inl e
                     | Inr captionTracks \<Rightarrow>
                         (case details_find env lang' captionTracks of
                            Inl e \<Rightarrow> Inl e
                          | Inr subtitle \<Rightarrow>
                              (case optional_baseUrl subtitle of
                                 None \<Rightarrow>
                                   Inr \<lparr>title = t, description = description', subtitles = []\<rparr>
                               | Some baseUrl \<Rightarrow>
                                   if \<not> truthy baseUrl
                                   then Inr \<lparr>title = t, description = description', subtitles = []\<rparr>
                                   else
                                     (case fetch env baseUrl of
                                        Inl e \<Rightarrow> Inl e
                                      | Inr subtitlesResponse \<Rightarrow>
                                          (case body subtitlesResponse of
                                             Inl e \<Rightarrow> Inl e
                                           | Inr transcript \<Rightarrow>
                                               Inr \<lparr>title = t, description = description',
                                                    subtitles = details_lines env transcript\<rparr>)))))))"

definition getVideoDetails :: "env \<Rightarrow> Options \<Rightarrow> error + VideoDetails" where
  \<comment> \<open>Lines 55-181. \<^verbatim>\<open>lang\<close> defaults to "en"; an absent or empty \<^verbatim>\<open>proxyURL\<close>
      is falsy.\<close>
  "getVideoDetails env opts =
     (let vid = videoID opts;
          lang' = (case lang opts of None \<Rightarrow> js ''en'' | Some l \<Rightarrow> l);
          youtubeUrl = js ''https://youtube.com/watch?v='' @ vid
      in case (case proxyURL opts of
                 None \<Rightarrow> fetch env (JString youtubeUrl)
               | Some p \<Rightarrow>
                   if p \<noteq> [] then fetchThroughProxy env youtubeUrl p
                   else fetch env (JString youtubeUrl)) of
           Inl e \<Rightarrow> Inl e
         | Inr response \<Rightarrow>
             (case body response of
                Inl e \<Rightarrow> Inl e
              | Inr data \<Rightarrow> details_of_page env vid lang' data))"

subsection \<open>getSubtitles\<close>

definition subtitles_find :: "env \<Rightarrow> jsstring \<Rightarrow> json \<Rightarrow> error + json option" where
  \<comment> \<open>Lines 214-219.\<close>
  "subtitles_find env lang' captionTracks =
     (case captionTracks of
        JArray tracks \<Rightarrow>
          (case find_js (vssId_is (js ''.'' @ lang')) tracks of
             Inl e \<Rightarrow> Inl e
           | Inr r1 \<Rightarrow>
               if truthy_u r1 then Inr r1
               else (case find_js (vssId_is (js ''a.'' @ lang')) tracks of
                       Inl e \<Rightarrow> Inl e
                     | Inr r2 \<Rightarrow>
                         if truthy_u r2 then Inr r2
                         else find_js (vssId_matches env lang') tracks))
      | _ \<Rightarrow> Inl TypeError)"

definition subtitles_line :: "env \<Rightarrow> Subtitle list \<Rightarrow> jsstring \<Rightarrow> Subtitle list" where
  \<comment> \<open>Lines 241-270: the callback of \<^verbatim>\<open>reduce\<close>.\<close>
  "subtitles_line env acc line =
     (let startResult = startRegex line; durResult = durRegex line
      in case startResult of
           None \<Rightarrow> acc
         | Some start' \<Rightarrow>
             (case durResult of
                None \<Rightarrow> acc
              | Some dur' \<Rightarrow>
                  (let htmlText =
                         replace_all tag_at []
                           (replace_all amp_at (js ''&'') (replace_first text_tag_at [] line));
                       decodedText = he_decode env htmlText;
                       text = striptags env decodedText
                   in acc @ [\<lparr>start = start', dur = dur', text' = text\<rparr>])))"

definition subtitles_lines :: "env \<Rightarrow> jsstring \<Rightarrow> Subtitle list" where
  \<comment> \<open>Lines 236-270.\<close>
  "subtitles_lines env transcript =
     foldl (subtitles_line env) []
       (filter (\<lambda>line. line \<noteq> [] \<and> trim line \<noteq> [])
          (split_str (js ''</text>'')
             (replace_str (js ''</transcript>'') []
                (replace_str (js ''<?xml version=\"1.0\" encoding=\"utf-8\" ?><transcript>'') []
                   transcript))))"

definition subtitles_of_page :: "env \<Rightarrow> jsstring \<Rightarrow> jsstring \<Rightarrow> jsstring \<Rightarrow> error + Subtitle list" where
  \<comment> \<open>Lines 195-272: from the text of the page on.\<close>
  "subtitles_of_page env vid lang' data =
     (if \<not> includes_str (js ''captionTracks'') data then Inr []
      else
        (case captionTracksRegex data of
           None \<Rightarrow> Inr []
         | Some captionTracksJson \<Rightarrow>
             (case JSON_parse captionTracksJson of
                Inl e \<Rightarrow> Inl e
              | Inr captionTracks \<Rightarrow>
                  (case subtitles_find env lang' captionTracks of
                     Inl e \<Rightarrow> Inl e
                   | Inr subtitle \<Rightarrow>
                       (case optional_baseUrl subtitle of
                          None \<Rightarrow> Inr []
                        | Some baseUrl \<Rightarrow>
                            if \<not> truthy baseUrl then Inr []
                            else
                              (case fetch env baseUrl of
                                 Inl e \<Rightarrow> Inl e
                               | Inr subtitlesResponse \<Rightarrow>
                                   (case body subtitlesResponse of
                                      Inl e \<Rightarrow> Inl e
                                    | Inr transcript \<Rightarrow>
                                        Inr (subtitles_lines env transcript))))))))"

definition getSubtitles :: "env \<Rightarrow> Options \<Rightarrow> error + Subtitle list" where
  \<comment> \<open>Lines 183-273.\<close>
  "getSubtitles env opts =
     (let vid = videoID opts;
          lang' = (case lang opts of None \<Rightarrow> js ''en'' | Some l \<Rightarrow> l);
          youtubeUrl = js ''https://youtube.com/watch?v='' @ vid
      in case (case proxyURL opts of
                 None \<Rightarrow> fetch env (JString youtubeUrl)
               | Some p \<Rightarrow>
                   if p \<noteq> [] then fetchThroughProxy env youtubeUrl p
                   else fetch env (JString youtubeUrl)) of
           Inl e \<Rightarrow> Inl e
         | Inr response \<Rightarrow>
             (case body response of
                Inl e \<Rightarrow> Inl e
              | Inr data \<Rightarrow> subtitles_of_page env vid lang' data))"

section \<open>Notions the properties are stated with\<close>

definition fragments :: "jsstring \<Rightarrow> jsstring list" where
  \<comment> \<open>The candidate lines of a caption document: what \<^verbatim>\<open>reduce\<close> folds over.\<close>
  "fragments transcript =
     filter (\<lambda>line. line \<noteq> [] \<and> trim line \<noteq> [])
       (split_str (js ''</text>'')
          (replace_str (js ''</transcript>'') []
             (replace_str (js ''<?xml version=\"1.0\" encoding=\"utf-8\" ?><transcript>'') []
                transcript)))"

definition well_timed :: "jsstring \<Rightarrow> bool" where
  \<comment> \<open>Both attribute patterns find a value in the fragment.\<close>
  "well_timed line = (startRegex line \<noteq> None \<and> durRegex line \<noteq> None)"

definition numeric_text :: "jsstring \<Rightarrow> bool" where
  \<comment> \<open>A non-empty string of decimal digits and dots.\<close>
  "numeric_text s = (s \<noteq> [] \<and> list_all isDigitOrDot s)"

definition numeric_line :: "Subtitle \<Rightarrow> bool" where
  "numeric_line l = (numeric_text (start l) \<and> numeric_text (dur l))"

definition requested_lang :: "Options \<Rightarrow> jsstring" where
  \<comment> \<open>The language code after the default of the parameter list.\<close>
  "requested_lang opts = (case lang opts of None \<Rightarrow> js ''en'' | Some l \<Rightarrow> l)"

definition page_of :: "env \<Rightarrow> Options \<Rightarrow> error + jsstring" where
  \<comment> \<open>The page markup both operations start from: the outcome of the first fetch and
      of reading its body.\<close>
  "page_of env opts =
     (case (case proxyURL opts of
              None \<Rightarrow> fetch env (JString (js ''https://youtube.com/watch?v='' @ videoID opts))
            | Some p \<Rightarrow>
                if p \<noteq> []
                then fetchThroughProxy env (js ''https://youtube.com/watch?v='' @ videoID opts) p
                else fetch env (JString (js ''https://youtube.com/watch?v='' @ videoID opts))) of
        Inl e \<Rightarrow> Inl e
      | Inr response \<Rightarrow> body response)"

definition decode_amp :: "jsstring \<Rightarrow> jsstring" where
  \<comment> \<open>An entity decoder that knows the ampersand entity only; with the identity for
      \<open>striptags\<close> it makes the environments of the examples.\<close>
  "decode_amp s = replace_all amp_at (js ''&'') s"

definition static_env :: "jsstring \<Rightarrow> jsstring \<Rightarrow> env" where
  \<comment> \<open>An environment of the examples: every page fetch answers \<open>page\<close>, every other
      fetch answers \<open>doc\<close>.\<close>
  "static_env page doc =
     \<lparr>fetch = (\<lambda>u. case u of
                     JString url \<Rightarrow>
                       if starts_with (js ''https://youtube.com/watch?v='') url
                       then Inr \<lparr>ok = True, body = Inr page\<rparr>
                       else Inr \<lparr>ok = True, body = Inr doc\<rparr>
                   | _ \<Rightarrow> Inl TypeError),
      NodeFetch = (\<lambda>target proxy. Inr \<lparr>ok = True, body = Inr page\<rparr>),
      HttpsProxyAgent = (\<lambda>proxy. None),
      he_decode = decode_amp,
      striptags = (\<lambda>s. s),
      RegExp_match = (\<lambda>p s. Inl SyntaxError)\<rparr>"

definition example_page :: jsstring where
  \<comment> \<open>A page with a title, no description and three caption tracks.\<close>
  "example_page = js ''<html><meta name=\"title\" content=\"My video\">x\"captionTracks\":[{\"baseUrl\":\"u\",\"vssId\":\"a.en\"},{\"baseUrl\":\"v\",\"vssId\":\"en-US\"},{\"baseUrl\":\"w\",\"vssId\":\".en\"}],\"audioTracks\":[]''"

definition example_doc :: jsstring where
  "example_doc = js ''<?xml version=\"1.0\" encoding=\"utf-8\" ?><transcript><text start=\"0.5\" dur=\"2.3\">Hello &amp;amp; world</text></transcript>''"

definition broken_page :: jsstring where
  \<comment> \<open>A page whose track list holds an array of its own: the pattern stops at the
      first closing bracket.\<close>
  "broken_page = js ''<meta name=\"title\" content=\"T\">\"captionTracks\":[{\"baseUrl\":\"u\",\"name\":{\"runs\":[{\"text\":\"English\"}]},\"vssId\":\".en\"}]''"

definition example_opts :: Options where
  "example_opts = \<lparr>videoID = js ''abc'', lang = None, proxyURL = None\<rparr>"

definition has_vssId :: "jsstring \<Rightarrow> json \<Rightarrow> bool" where
  \<comment> \<open>The track's variant identifier is exactly the string \<open>pat\<close>.\<close>
  "has_vssId pat track = (get_prop track (js ''vssId'') = Some (JString pat))"

definition untitled_page :: jsstring where
  \<comment> \<open>A page without a title meta tag and without the marker.\<close>
  "untitled_page = js ''<html><head></head></html>''"

definition titled_page :: jsstring where
  \<comment> \<open>A page with a title and without the marker.\<close>
  "titled_page = js ''<meta name=\"title\" content=\"T\">''"

definition nourl_page :: jsstring where
  \<comment> \<open>A page whose only track has an empty \<^verbatim>\<open>baseUrl\<close>.\<close>
  "nourl_page = js ''<meta name=\"title\" content=\"T\">\"captionTracks\":[{\"vssId\":\".en\",\"baseUrl\":\"\"}]''"

definition french_opts :: Options where
  "french_opts = \<lparr>videoID = js ''abc'', lang = Some (js ''fr''), proxyURL = None\<rparr>"

lemmas string_defs =
  js.simps strip_prefix_def includes_str_def replace_str_def trim_def isWhiteSpace_def
  isLineTerminator_def isDigit_def isDigitOrDot_def isSyntaxCharacter_def

lemmas regex_defs =
  startRegex_def durRegex_def attr_at_def text_tag_at_def amp_at_def tag_at_def tag_rest_def
  metaRegex_def meta_at_def captionTracksRegex_def captionTracks_at_def dot_literal_at_def

lemmas json_defs =
  JSON_parse_def lex_number_def lex_int_def lex_frac_def lex_exp_def lex_sign_def
  digits_value_def cons_fst_def hex_digit_def escape_char_def

lemmas track_defs =
  vssId_is_def vssId_matches_def string_match_def member_def truthy_u_def
  optional_baseUrl_def number_nonzero_def

section \<open>The caption document parser\<close>

lemma details_lines_fragments:
  "details_lines env transcript = foldl (details_line env) [] (fragments transcript)"
  by (simp add: details_lines_def fragments_def)

lemma details_line_append: "details_line env acc line = acc @ details_line env [] line"
  by (simp add: details_line_def Let_def split: option.splits)

lemma foldl_details_line:
  "foldl (details_line env) acc ls = acc @ concat (map (details_line env []) ls)"
proof (induction ls arbitrary: acc)
  case Nil
  then show ?case by simp
next
  case (Cons l ls)
  have "foldl (details_line env) acc (l # ls) = foldl (details_line env) (details_line env acc l) ls"
    by simp
  also have "\<dots> = details_line env acc l @ concat (map (details_line env []) ls)"
    by (rule Cons.IH)
  also have "\<dots> = acc @ concat (map (details_line env []) (l # ls))"
    using details_line_append [of env acc l] by simp
  finally show ?case .
qed

lemma details_line_skip:
  "startRegex line = None \<or> durRegex line = None \<Longrightarrow> details_line env acc line = acc"
  by (auto simp: details_line_def Let_def split: option.splits)

lemma details_line_keep:
  "startRegex line = Some a \<Longrightarrow> durRegex line = Some b \<Longrightarrow>
   \<exists>t. details_line env acc line = acc @ [\<lparr>start = a, dur = b, text' = t\<rparr>]"
  by (simp add: details_line_def Let_def)

lemma details_line_length:
  "length (details_line env [] line) = (if well_timed line then 1 else 0)"
  by (auto simp: details_line_def well_timed_def Let_def split: option.splits)

lemma length_concat_details:
  "length (concat (map (details_line env []) ls)) = length (filter well_timed ls)"
  by (induction ls) (simp_all add: details_line_length)

text \<open>
  Claim C8. The parser folds over the fragments in document order and each fragment
  contributes on its own: a fragment in which the start or the dur pattern finds nothing
  leaves the lines read so far as they are, any other fragment appends exactly one line
  with the two captured values. The parser is a total function (it has no failure
  outcome), its result has as many lines as there are fragments with both attributes,
  and two fragments of which exactly one has both give exactly one line.
\<close>

theorem parser_skips_malformed_lines:
  "details_lines env transcript = concat (map (details_line env []) (fragments transcript)) \<and>
   (\<forall>line. \<not> well_timed line \<longrightarrow> details_line env acc line = acc) \<and>
   (\<forall>line. well_timed line \<longrightarrow>
      (\<exists>a b t. startRegex line = Some a \<and> durRegex line = Some b \<and>
         details_line env acc line = acc @ [\<lparr>start = a, dur = b, text' = t\<rparr>])) \<and>
   length (details_lines env transcript) = length (filter well_timed (fragments transcript)) \<and>
   (\<forall>l1 l2. fragments transcript = [l1, l2] \<and> well_timed l1 \<noteq> well_timed l2 \<longrightarrow>
      length (details_lines env transcript) = 1)"
proof (intro conjI allI impI)
  show c: "details_lines env transcript = concat (map (details_line env []) (fragments transcript))"
    by (simp add: details_lines_fragments foldl_details_line)
  show n: "length (details_lines env transcript) = length (filter well_timed (fragments transcript))"
    by (simp only: c length_concat_details)
  fix l1 l2
  assume "fragments transcript = [l1, l2] \<and> well_timed l1 \<noteq> well_timed l2"
  with n show "length (details_lines env transcript) = 1" by auto
next
  fix line
  assume "\<not> well_timed line"
  then show "details_line env acc line = acc"
    by (auto simp: well_timed_def intro: details_line_skip)
next
  fix line
  assume "well_timed line"
  then obtain a b where ab: "startRegex line = Some a" "durRegex line = Some b"
    by (auto simp: well_timed_def)
  from details_line_keep [OF ab] show
    "\<exists>a b t. startRegex line = Some a \<and> durRegex line = Some b \<and>
         details_line env acc line = acc @ [\<lparr>start = a, dur = b, text' = t\<rparr>]"
    using ab by blast
qed

theorem parser_skips_malformed_lines_witness:
  "fragments (js ''<?xml version=\"1.0\" encoding=\"utf-8\" ?><transcript><text start=\"1\">no dur</text><text start=\"2.5\" dur=\"4\">kept</text></transcript>'')
     = [js ''<text start=\"1\">no dur'', js ''<text start=\"2.5\" dur=\"4\">kept''] \<and>
   \<not> well_timed (js ''<text start=\"1\">no dur'') \<and>
   well_timed (js ''<text start=\"2.5\" dur=\"4\">kept'') \<and>
   length (details_lines (static_env [] [])
     (js ''<?xml version=\"1.0\" encoding=\"utf-8\" ?><transcript><text start=\"1\">no dur</text><text start=\"2.5\" dur=\"4\">kept</text></transcript>'')) = 1 \<and>
   details_line (static_env [] []) [] (js ''<text start=\"1\">no dur'') = [] \<and>
   details_line (static_env [] []) [] (js ''<text start=\"2.5\" dur=\"4\">kept'')
     = [\<lparr>start = js ''2.5'', dur = js ''4'', text' = js ''kept''\<rparr>]"
proof -
  let ?doc = "js ''<?xml version=\"1.0\" encoding=\"utf-8\" ?><transcript><text start=\"1\">no dur</text><text start=\"2.5\" dur=\"4\">kept</text></transcript>''"
  let ?l1 = "js ''<text start=\"1\">no dur''"
  let ?l2 = "js ''<text start=\"2.5\" dur=\"4\">kept''"
  have f: "fragments ?doc = [?l1, ?l2]"
    by (simp add: fragments_def string_defs)
  have w1: "\<not> well_timed ?l1"
    by (simp add: well_timed_def regex_defs string_defs)
  have w2: "well_timed ?l2"
    by (simp add: well_timed_def regex_defs string_defs)
  have k: "details_line (static_env [] []) [] ?l2
             = [\<lparr>start = js ''2.5'', dur = js ''4'', text' = js ''kept''\<rparr>]"
    by (simp add: details_line_def static_env_def decode_amp_def regex_defs string_defs)
  note t = parser_skips_malformed_lines [of "static_env [] []" ?doc "[]"]
  from t f w1 w2 have n: "length (details_lines (static_env [] []) ?doc) = 1" by blast
  from t w1 have s: "details_line (static_env [] []) [] ?l1 = []" by blast
  from f w1 w2 n s k show ?thesis by blast
qed

section \<open>The two entry points\<close>

lemma attr_at_numeric: "attr_at name s = Some v \<Longrightarrow> numeric_text v"
  by (auto simp: attr_at_def numeric_text_def Let_def list_all_iff
      split: option.splits if_splits dest: set_takeWhileD)

lemma exec_from_Some: "exec_from m s = Some v \<Longrightarrow> \<exists>t. m t = Some v"
  by (induction m s rule: exec_from.induct) (auto split: option.splits)

lemma startRegex_numeric: "startRegex line = Some v \<Longrightarrow> numeric_text v"
  unfolding startRegex_def by (blast dest: exec_from_Some attr_at_numeric)

lemma durRegex_numeric: "durRegex line = Some v \<Longrightarrow> numeric_text v"
  unfolding durRegex_def by (blast dest: exec_from_Some attr_at_numeric)

lemma details_line_numeric: "list_all numeric_line (details_line env [] line)"
  by (auto simp: details_line_def Let_def numeric_line_def
      dest: startRegex_numeric durRegex_numeric split: option.splits)

lemma details_lines_numeric: "list_all numeric_line (details_lines env transcript)"
  using details_line_numeric
  by (auto simp: details_lines_fragments foldl_details_line list_all_iff)

lemma subtitles_line_eq: "subtitles_line env = details_line env"
  by (intro ext) (simp add: subtitles_line_def details_line_def)

lemma subtitles_lines_eq: "subtitles_lines env transcript = details_lines env transcript"
  by (simp add: subtitles_lines_def details_lines_def subtitles_line_eq)

lemma subtitles_find_eq: "subtitles_find env lang' tracks = details_find env lang' tracks"
  by (simp add: subtitles_find_def details_find_def)

lemma details_of_page_cases:
  "details_of_page env vid lang' data =
     (case metaRegex (js ''title'') data of
        None \<Rightarrow> Inl (Error (js ''No video found for: '' @ vid))
      | Some t \<Rightarrow>
          if t = [] then Inl (Error (js ''No video found for: '' @ vid))
          else map_sum id
                 (\<lambda>ls. \<lparr>title = t,
                        description =
                          (case metaRegex (js ''description'') data of
                             None \<Rightarrow> js ''No description found''
                           | Some d \<Rightarrow> if d \<noteq> [] then d else js ''No description found''),
                        subtitles = ls\<rparr>)
                 (subtitles_of_page env vid lang' data))"
  by (simp add: details_of_page_def subtitles_of_page_def Let_def subtitles_find_eq
      subtitles_lines_eq split: option.splits sum.splits)

lemma subtitles_of_page_numeric:
  "subtitles_of_page env vid lang' data = Inr ls \<Longrightarrow> list_all numeric_line ls"
  by (auto simp: subtitles_of_page_def subtitles_lines_eq details_lines_numeric
      split: option.splits sum.splits if_splits)

lemma map_sum_id_Inr: "map_sum id f x = Inr v \<longleftrightarrow> (\<exists>y. x = Inr y \<and> v = f y)"
  by (cases x) auto

lemma map_sum_id_Inl: "map_sum id f x = Inl e \<longleftrightarrow> x = Inl e"
  by (cases x) auto

lemma getVideoDetails_page:
  "getVideoDetails env opts =
     (case page_of env opts of
        Inl e \<Rightarrow> Inl e
      | Inr data \<Rightarrow> details_of_page env (videoID opts) (requested_lang opts) data)"
  by (simp add: getVideoDetails_def page_of_def requested_lang_def Let_def split: sum.splits)

lemma getSubtitles_page:
  "getSubtitles env opts =
     (case page_of env opts of
        Inl e \<Rightarrow> Inl e
      | Inr data \<Rightarrow> subtitles_of_page env (videoID opts) (requested_lang opts) data)"
  by (simp add: getSubtitles_def page_of_def requested_lang_def Let_def split: sum.splits)

section \<open>Track selection\<close>

lemma vssId_is_has: "track \<noteq> JNull \<Longrightarrow> vssId_is pat track = Inr (has_vssId pat track)"
  by (simp add: vssId_is_def member_def has_vssId_def)

lemma find_js_total:
  "\<forall>x\<in>set xs. p x = Inr (q x) \<Longrightarrow> find_js p xs = Inr (List.find q xs)"
  by (induction xs) auto

lemma find_vssId_is:
  "JNull \<notin> set tracks \<Longrightarrow>
   find_js (vssId_is pat) tracks = Inr (List.find (has_vssId pat) tracks)"
proof (rule find_js_total, rule ballI)
  fix x
  assume "JNull \<notin> set tracks" "x \<in> set tracks"
  then have "x \<noteq> JNull" by auto
  then show "vssId_is pat x = Inr (has_vssId pat x)" by (rule vssId_is_has)
qed

lemma has_vssId_truthy: "has_vssId pat track \<Longrightarrow> truthy track"
  by (cases track) (auto simp: has_vssId_def)

lemma find_satisfies: "List.find P xs = Some x \<Longrightarrow> P x"
  by (induction xs) (auto split: if_splits)

lemma find_has_vssId_truthy:
  "truthy_u (List.find (has_vssId pat) tracks) \<longleftrightarrow> List.find (has_vssId pat) tracks \<noteq> None"
  by (cases "List.find (has_vssId pat) tracks")
     (auto simp: truthy_u_def dest: find_satisfies has_vssId_truthy)

lemma details_find_priority:
  assumes "JNull \<notin> set tracks"
  shows "details_find env lang' (JArray tracks) =
     (case List.find (has_vssId (js ''.'' @ lang')) tracks of
        Some t \<Rightarrow> Inr (Some t)
      | None \<Rightarrow>
          (case List.find (has_vssId (js ''a.'' @ lang')) tracks of
             Some t \<Rightarrow> Inr (Some t)
           | None \<Rightarrow> find_js (vssId_matches env lang') tracks))"
  by (simp add: details_find_def find_vssId_is [OF assms] find_has_vssId_truthy
      split: option.splits)

section \<open>Outcomes of the pipeline\<close>

lemma subtitles_no_marker:
  "\<not> includes_str (js ''captionTracks'') data \<Longrightarrow> subtitles_of_page env vid lang' data = Inr []"
  by (simp add: subtitles_of_page_def)

lemma subtitles_no_match:
  "captionTracksRegex data = None \<Longrightarrow> subtitles_of_page env vid lang' data = Inr []"
  by (simp add: subtitles_of_page_def)

lemma subtitles_no_track:
  "captionTracksRegex data = Some j \<Longrightarrow> JSON_parse j = Inr tracks \<Longrightarrow>
   details_find env lang' tracks = Inr sel \<Longrightarrow> \<not> truthy_u (optional_baseUrl sel) \<Longrightarrow>
   subtitles_of_page env vid lang' data = Inr []"
  by (auto simp: subtitles_of_page_def subtitles_find_eq truthy_u_def split: option.splits)

lemma subtitles_failure:
  "subtitles_of_page env vid lang' data = Inl e \<Longrightarrow>
   includes_str (js ''captionTracks'') data \<and>
   (\<exists>j. captionTracksRegex data = Some j \<and>
      (JSON_parse j = Inl e \<or>
       (\<exists>tracks. JSON_parse j = Inr tracks \<and>
          (details_find env lang' tracks = Inl e \<or>
           (\<exists>sel b. details_find env lang' tracks = Inr sel \<and>
              optional_baseUrl sel = Some b \<and> truthy b \<and>
              (fetch env b = Inl e \<or> (\<exists>r. fetch env b = Inr r \<and> body r = Inl e)))))))"
  by (auto simp: subtitles_of_page_def subtitles_find_eq split: option.splits sum.splits if_splits)

lemma details_no_title:
  "metaRegex (js ''title'') data = None \<or> metaRegex (js ''title'') data = Some [] \<Longrightarrow>
   details_of_page env vid lang' data = Inl (Error (js ''No video found for: '' @ vid))"
  by (auto simp: details_of_page_cases)

lemma details_titled:
  "metaRegex (js ''title'') data = Some t \<Longrightarrow> t \<noteq> [] \<Longrightarrow>
   details_of_page env vid lang' data =
     map_sum id
       (\<lambda>ls. \<lparr>title = t,
              description =
                (case metaRegex (js ''description'') data of
                   None \<Rightarrow> js ''No description found''
                 | Some d \<Rightarrow> if d \<noteq> [] then d else js ''No description found''),
              subtitles = ls\<rparr>)
       (subtitles_of_page env vid lang' data)"
  by (simp add: details_of_page_cases)

lemma description_nonempty:
  "(case metaRegex (js ''description'') data of
      None \<Rightarrow> js ''No description found''
    | Some d \<Rightarrow> if d \<noteq> [] then d else js ''No description found'') \<noteq> []"
  by (simp split: option.splits)

lemma details_empty:
  assumes "metaRegex (js ''title'') data = Some t" "t \<noteq> []"
    and "subtitles_of_page env vid lang' data = Inr []"
  shows "\<exists>d. d \<noteq> [] \<and> details_of_page env vid lang' data = Inr \<lparr>title = t, description = d, subtitles = []\<rparr>"
  using description_nonempty [of data] by (simp add: details_titled [OF assms(1,2)] assms(3))

section \<open>Worked examples\<close>

lemma starts_with_append: "starts_with p (p @ r)"
  by (induction p) auto

lemma page_of_static_env:
  "page_of (static_env page doc) \<lparr>videoID = v, lang = l, proxyURL = None\<rparr> = Inr page"
  by (simp add: page_of_def static_env_def starts_with_append)

lemma example_doc_fragments:
  "fragments example_doc = [js ''<text start=\"0.5\" dur=\"2.3\">Hello &amp;amp; world'']"
  by (simp add: fragments_def example_doc_def string_defs)

lemma example_doc_line:
  assumes "he_decode env (js ''Hello &amp; world'') = js ''Hello & world''"
    and "striptags env (js ''Hello & world'') = js ''Hello & world''"
  shows "details_line env [] (js ''<text start=\"0.5\" dur=\"2.3\">Hello &amp;amp; world'')
           = [\<lparr>start = js ''0.5'', dur = js ''2.3'', text' = js ''Hello & world''\<rparr>]"
proof -
  let ?line = "js ''<text start=\"0.5\" dur=\"2.3\">Hello &amp;amp; world''"
  have s: "startRegex ?line = Some (js ''0.5'')"
    by (simp add: regex_defs string_defs)
  have d: "durRegex ?line = Some (js ''2.3'')"
    by (simp add: regex_defs string_defs)
  have h: "replace_all tag_at [] (replace_all amp_at (js ''&'') (replace_first text_tag_at [] ?line))
             = js ''Hello &amp; world''"
    by (simp add: regex_defs string_defs)
  show ?thesis
    unfolding details_line_def Let_def s d h option.case assms by simp
qed

lemma example_doc_lines:
  assumes "he_decode env (js ''Hello &amp; world'') = js ''Hello & world''"
    and "striptags env (js ''Hello & world'') = js ''Hello & world''"
  shows "details_lines env example_doc
           = [\<lparr>start = js ''0.5'', dur = js ''2.3'', text' = js ''Hello & world''\<rparr>]"
  using example_doc_line [OF assms]
  by (simp add: details_lines_fragments example_doc_fragments)

lemma static_env_decodes:
  "he_decode (static_env page doc) (js ''Hello &amp; world'') = js ''Hello & world''"
  "striptags (static_env page doc) (js ''Hello & world'') = js ''Hello & world''"
  by (simp_all add: static_env_def decode_amp_def regex_defs string_defs)

lemma example_page_title: "metaRegex (js ''title'') example_page = Some (js ''My video'')"
  by (simp add: example_page_def regex_defs string_defs)

lemma example_page_description: "metaRegex (js ''description'') example_page = None"
  by (simp add: example_page_def regex_defs string_defs)

lemma example_page_tracks:
  "captionTracksRegex example_page = Some (js ''[{\"baseUrl\":\"u\",\"vssId\":\"a.en\"},{\"baseUrl\":\"v\",\"vssId\":\"en-US\"},{\"baseUrl\":\"w\",\"vssId\":\".en\"}]'')"
  by (simp add: example_page_def regex_defs string_defs)

lemma example_page_marker: "includes_str (js ''captionTracks'') example_page"
  by (simp add: example_page_def string_defs)

lemma example_tracks_json:
  "JSON_parse (js ''[{\"baseUrl\":\"u\",\"vssId\":\"a.en\"},{\"baseUrl\":\"v\",\"vssId\":\"en-US\"},{\"baseUrl\":\"w\",\"vssId\":\".en\"}]'')
     = Inr (JArray [JObject [(js ''baseUrl'', JString (js ''u'')), (js ''vssId'', JString (js ''a.en''))],
                    JObject [(js ''baseUrl'', JString (js ''v'')), (js ''vssId'', JString (js ''en-US''))],
                    JObject [(js ''baseUrl'', JString (js ''w'')), (js ''vssId'', JString (js ''.en''))]])"
  by (simp add: json_defs string_defs)

lemma example_tracks_find:
  "details_find env (js ''en'')
     (JArray [JObject [(js ''baseUrl'', JString (js ''u'')), (js ''vssId'', JString (js ''a.en''))],
              JObject [(js ''baseUrl'', JString (js ''v'')), (js ''vssId'', JString (js ''en-US''))],
              JObject [(js ''baseUrl'', JString (js ''w'')), (js ''vssId'', JString (js ''.en''))]])
     = Inr (Some (JObject [(js ''baseUrl'', JString (js ''w'')), (js ''vssId'', JString (js ''.en''))]))"
  by (simp add: details_find_def track_defs string_defs)

lemma example_subtitles:
  "subtitles_of_page (static_env page example_doc) vid (js ''en'') example_page
     = Inr [\<lparr>start = js ''0.5'', dur = js ''2.3'', text' = js ''Hello & world''\<rparr>]"
proof -
  have b: "optional_baseUrl (Some (JObject [(js ''baseUrl'', JString (js ''w'')), (js ''vssId'', JString (js ''.en''))]))
             = Some (JString (js ''w''))"
    by (simp add: track_defs string_defs)
  have f: "fetch (static_env page example_doc) (JString (js ''w''))
             = Inr \<lparr>ok = True, body = Inr example_doc\<rparr>"
    by (simp add: static_env_def string_defs)
  show ?thesis
    unfolding subtitles_of_page_def
    by (simp add: example_page_marker example_page_tracks example_tracks_json
        subtitles_find_eq example_tracks_find b f subtitles_lines_eq
        example_doc_lines [OF static_env_decodes])
qed

lemma example_details:
  "getVideoDetails (static_env example_page example_doc) example_opts
     = Inr \<lparr>title = js ''My video'', description = js ''No description found'',
            subtitles = [\<lparr>start = js ''0.5'', dur = js ''2.3'', text' = js ''Hello & world''\<rparr>]\<rparr>"
  by (simp add: getVideoDetails_page example_opts_def page_of_static_env requested_lang_def
      details_of_page_cases example_page_title example_page_description example_subtitles)

lemma example_getSubtitles:
  "getSubtitles (static_env example_page example_doc) example_opts
     = Inr [\<lparr>start = js ''0.5'', dur = js ''2.3'', text' = js ''Hello & world''\<rparr>]"
  by (simp add: getSubtitles_page example_opts_def page_of_static_env requested_lang_def
      example_subtitles)

lemma broken_page_title: "metaRegex (js ''title'') broken_page = Some (js ''T'')"
  by (simp add: broken_page_def regex_defs string_defs)

lemma broken_page_marker: "includes_str (js ''captionTracks'') broken_page"
  by (simp add: broken_page_def string_defs)

lemma broken_page_tracks:
  "captionTracksRegex broken_page
     = Some (js ''[{\"baseUrl\":\"u\",\"name\":{\"runs\":[{\"text\":\"English\"}]'')"
  by (simp add: broken_page_def regex_defs string_defs)

lemma broken_tracks_json:
  "JSON_parse (js ''[{\"baseUrl\":\"u\",\"name\":{\"runs\":[{\"text\":\"English\"}]'')
     = Inl SyntaxError"
  by (simp add: json_defs string_defs)

lemma broken_subtitles:
  "subtitles_of_page env vid lang' broken_page = Inl SyntaxError"
  by (simp add: subtitles_of_page_def broken_page_marker broken_page_tracks broken_tracks_json)

lemma broken_getSubtitles:
  "getSubtitles (static_env broken_page doc) example_opts = Inl SyntaxError"
  by (simp add: getSubtitles_page example_opts_def page_of_static_env broken_subtitles)

lemma broken_details:
  "getVideoDetails (static_env broken_page doc) example_opts = Inl SyntaxError"
  by (simp add: getVideoDetails_page example_opts_def page_of_static_env
      details_of_page_cases broken_page_title broken_subtitles)

lemma untitled_page_marker: "\<not> includes_str (js ''captionTracks'') untitled_page"
  by (simp add: untitled_page_def string_defs)

lemma untitled_page_title: "metaRegex (js ''title'') untitled_page = None"
  by (simp add: untitled_page_def regex_defs string_defs)

lemma titled_page_marker: "\<not> includes_str (js ''captionTracks'') titled_page"
  by (simp add: titled_page_def string_defs)

lemma titled_page_title: "metaRegex (js ''title'') titled_page = Some (js ''T'')"
  by (simp add: titled_page_def regex_defs string_defs)

lemma nourl_page_title: "metaRegex (js ''title'') nourl_page = Some (js ''T'')"
  by (simp add: nourl_page_def regex_defs string_defs)

lemma nourl_page_tracks:
  "captionTracksRegex nourl_page = Some (js ''[{\"vssId\":\".en\",\"baseUrl\":\"\"}]'')"
  by (simp add: nourl_page_def regex_defs string_defs)

lemma nourl_tracks_json:
  "JSON_parse (js ''[{\"vssId\":\".en\",\"baseUrl\":\"\"}]'')
     = Inr (JArray [JObject [(js ''vssId'', JString (js ''.en'')), (js ''baseUrl'', JString [])]])"
  by (simp add: json_defs string_defs)

lemma nourl_tracks_find:
  "details_find env (js ''en'')
     (JArray [JObject [(js ''vssId'', JString (js ''.en'')), (js ''baseUrl'', JString [])]])
     = Inr (Some (JObject [(js ''vssId'', JString (js ''.en'')), (js ''baseUrl'', JString [])]))"
  by (simp add: details_find_def track_defs string_defs)

lemma nourl_baseUrl:
  "\<not> truthy_u (optional_baseUrl
      (Some (JObject [(js ''vssId'', JString (js ''.en'')), (js ''baseUrl'', JString [])])))"
  by (simp add: track_defs string_defs)

lemma french_tracks_find:
  "details_find env (js ''fr'')
     (JArray [JObject [(js ''baseUrl'', JString (js ''u'')), (js ''vssId'', JString (js ''a.en''))],
              JObject [(js ''baseUrl'', JString (js ''v'')), (js ''vssId'', JString (js ''en-US''))],
              JObject [(js ''baseUrl'', JString (js ''w'')), (js ''vssId'', JString (js ''.en''))]])
     = Inr None"
  by (simp add: details_find_def track_defs string_defs regex_defs)

lemma example_opts_fields:
  "videoID example_opts = js ''abc''" "requested_lang example_opts = js ''en''"
  "page_of (static_env page doc) example_opts = Inr page"
  by (simp_all add: example_opts_def requested_lang_def page_of_static_env)

lemma french_opts_fields:
  "videoID french_opts = js ''abc''" "requested_lang french_opts = js ''fr''"
  "page_of (static_env page doc) french_opts = Inr page"
  by (simp_all add: french_opts_def requested_lang_def page_of_static_env)

lemma js_append: "js (a @ b) = js a @ js b"
  by (induction a) (simp_all add: js.simps)

lemma untitled_details:
  "getVideoDetails (static_env untitled_page doc) example_opts
     = Inl (Error (js ''No video found for: abc''))"
  by (simp add: getVideoDetails_page example_opts_fields details_no_title untitled_page_title
      js_append [symmetric])

section \<open>Properties of the entry points\<close>

text \<open>
  Claim C10. Every line either operation returns has a \<open>start\<close> and a \<open>dur\<close> that
  are non-empty and hold only decimal digits and dots: both are group 1 of a pattern
  whose group is \<^verbatim>\<open>[\d.]+\<close>.
\<close>

theorem timing_fields_numeric:
  "(\<forall>vd. getVideoDetails env opts = Inr vd \<longrightarrow> list_all numeric_line (subtitles vd)) \<and>
   (\<forall>ls. getSubtitles env opts = Inr ls \<longrightarrow> list_all numeric_line ls)"
proof (intro conjI allI impI)
  fix ls
  assume "getSubtitles env opts = Inr ls"
  then show "list_all numeric_line ls"
    by (auto simp: getSubtitles_page split: sum.splits dest: subtitles_of_page_numeric)
next
  fix vd
  assume "getVideoDetails env opts = Inr vd"
  then obtain data where d: "details_of_page env (videoID opts) (requested_lang opts) data = Inr vd"
    by (auto simp: getVideoDetails_page split: sum.splits)
  then obtain ls where "subtitles_of_page env (videoID opts) (requested_lang opts) data = Inr ls"
    "subtitles vd = ls"
    by (auto simp: details_of_page_cases map_sum_id_Inr split: option.splits if_splits)
  then show "list_all numeric_line (subtitles vd)"
    by (auto dest: subtitles_of_page_numeric)
qed

theorem timing_fields_numeric_witness:
  "getVideoDetails (static_env example_page example_doc) example_opts
     = Inr \<lparr>title = js ''My video'', description = js ''No description found'',
            subtitles = [\<lparr>start = js ''0.5'', dur = js ''2.3'', text' = js ''Hello & world''\<rparr>]\<rparr> \<and>
   getSubtitles (static_env example_page example_doc) example_opts
     = Inr [\<lparr>start = js ''0.5'', dur = js ''2.3'', text' = js ''Hello & world''\<rparr>] \<and>
   list_all numeric_line [\<lparr>start = js ''0.5'', dur = js ''2.3'', text' = js ''Hello & world''\<rparr>] \<and>
   numeric_text (js ''0.5'') \<and> numeric_text (js ''2.3'') \<and> \<not> numeric_text (js ''1,5'') \<and>
   \<not> numeric_text []"
proof -
  have n: "\<not> numeric_text (js ''1,5'')" "\<not> numeric_text []"
    by (simp_all add: numeric_text_def string_defs)
  from timing_fields_numeric [of "static_env example_page example_doc" example_opts]
    example_getSubtitles
  have l: "list_all numeric_line [\<lparr>start = js ''0.5'', dur = js ''2.3'', text' = js ''Hello & world''\<rparr>]"
    by blast
  then have "numeric_text (js ''0.5'')" "numeric_text (js ''2.3'')"
    by (simp_all add: numeric_line_def)
  with n l example_details example_getSubtitles show ?thesis by blast
qed

text \<open>
  Claim C5. On the same environment and the same options, whenever \<open>getVideoDetails\<close>
  returns, \<open>getSubtitles\<close> returns the \<open>subtitles\<close> field of its result. The two
  differ on failure only by the title guard: any other error of \<open>getVideoDetails\<close> is
  the error of \<open>getSubtitles\<close>.
\<close>

theorem entry_points_agree:
  "(\<forall>vd. getVideoDetails env opts = Inr vd \<longrightarrow> getSubtitles env opts = Inr (subtitles vd)) \<and>
   (\<forall>e. getVideoDetails env opts = Inl e \<longrightarrow>
      getSubtitles env opts = Inl e \<or> e = Error (js ''No video found for: '' @ videoID opts))"
  by (auto simp: getVideoDetails_page getSubtitles_page details_of_page_cases
      map_sum_id_Inr map_sum_id_Inl split: sum.splits option.splits if_splits)

theorem entry_points_agree_witness:
  "getVideoDetails (static_env example_page example_doc) example_opts
     = Inr \<lparr>title = js ''My video'', description = js ''No description found'',
            subtitles = [\<lparr>start = js ''0.5'', dur = js ''2.3'', text' = js ''Hello & world''\<rparr>]\<rparr> \<and>
   getSubtitles (static_env example_page example_doc) example_opts
     = Inr [\<lparr>start = js ''0.5'', dur = js ''2.3'', text' = js ''Hello & world''\<rparr>] \<and>
   getVideoDetails (static_env broken_page []) example_opts = Inl SyntaxError \<and>
   getSubtitles (static_env broken_page []) example_opts = Inl SyntaxError"
proof -
  note t = entry_points_agree [of "static_env example_page example_doc" example_opts]
  from t example_details
  have "getSubtitles (static_env example_page example_doc) example_opts
          = Inr [\<lparr>start = js ''0.5'', dur = js ''2.3'', text' = js ''Hello & world''\<rparr>]"
    by auto
  moreover
  from entry_points_agree [of "static_env broken_page []" example_opts] broken_details
  have "getSubtitles (static_env broken_page []) example_opts = Inl SyntaxError"
    by auto
  ultimately show ?thesis using example_details broken_details by blast
qed

text \<open>
  Claim C4. The caption document of the claim parses to the single line with start
  \<^verbatim>\<open>0.5\<close>, dur \<^verbatim>\<open>2.3\<close> and the text \<^verbatim>\<open>Hello & world\<close>. The source's own
  replacement turns \<^verbatim>\<open>&amp;amp;\<close> into \<^verbatim>\<open>&amp;\<close>; the packages \<^verbatim>\<open>he\<close> and
  \<^verbatim>\<open>striptags\<close> are parameters, and the two hypotheses state what they return on the
  one string each of them receives here.
\<close>

theorem double_escaped_ampersand:
  assumes "he_decode env (js ''Hello &amp; world'') = js ''Hello & world''"
    and "striptags env (js ''Hello & world'') = js ''Hello & world''"
  shows "details_lines env
           (js ''<?xml version=\"1.0\" encoding=\"utf-8\" ?><transcript><text start=\"0.5\" dur=\"2.3\">Hello &amp;amp; world</text></transcript>'')
         = [\<lparr>start = js ''0.5'', dur = js ''2.3'', text' = js ''Hello & world''\<rparr>]"
  using example_doc_lines [OF assms] by (simp only: example_doc_def)

theorem double_escaped_ampersand_witness:
  "he_decode (static_env [] []) (js ''Hello &amp; world'') = js ''Hello & world'' \<and>
   striptags (static_env [] []) (js ''Hello & world'') = js ''Hello & world'' \<and>
   details_lines (static_env [] [])
      (js ''<?xml version=\"1.0\" encoding=\"utf-8\" ?><transcript><text start=\"0.5\" dur=\"2.3\">Hello &amp;amp; world</text></transcript>'')
    = [\<lparr>start = js ''0.5'', dur = js ''2.3'', text' = js ''Hello & world''\<rparr>]"
  using double_escaped_ampersand [OF static_env_decodes] static_env_decodes by blast

text \<open>
  Claim C7, as amended. On a page without the marker \<open>getSubtitles\<close> returns the empty
  sequence. \<open>getVideoDetails\<close> returns the title, a non-empty description and the empty
  sequence when the title pattern matches a non-empty title; when the pattern does not
  match or the title is empty, it fails with the error that names the identifier.
\<close>

theorem no_marker_no_subtitles:
  assumes "page_of env opts = Inr data"
    and "\<not> includes_str (js ''captionTracks'') data"
  shows "getSubtitles env opts = Inr [] \<and>
     (\<forall>t. metaRegex (js ''title'') data = Some t \<and> t \<noteq> [] \<longrightarrow>
        (\<exists>d. d \<noteq> [] \<and>
           getVideoDetails env opts = Inr \<lparr>title = t, description = d, subtitles = []\<rparr>)) \<and>
     (metaRegex (js ''title'') data = None \<or> metaRegex (js ''title'') data = Some [] \<longrightarrow>
        getVideoDetails env opts = Inl (Error (js ''No video found for: '' @ videoID opts)))"
proof (intro conjI allI impI)
  show "getSubtitles env opts = Inr []"
    by (simp add: getSubtitles_page assms subtitles_no_marker)
next
  fix t
  assume "metaRegex (js ''title'') data = Some t \<and> t \<noteq> []"
  then show "\<exists>d. d \<noteq> [] \<and>
     getVideoDetails env opts = Inr \<lparr>title = t, description = d, subtitles = []\<rparr>"
    using details_empty [of data t env "videoID opts" "requested_lang opts"]
    by (simp add: getVideoDetails_page assms subtitles_no_marker)
next
  assume "metaRegex (js ''title'') data = None \<or> metaRegex (js ''title'') data = Some []"
  then show "getVideoDetails env opts = Inl (Error (js ''No video found for: '' @ videoID opts))"
    by (simp add: getVideoDetails_page assms(1) details_no_title)
qed

theorem no_marker_no_subtitles_witness:
  "page_of (static_env titled_page []) example_opts = Inr titled_page \<and>
   \<not> includes_str (js ''captionTracks'') titled_page \<and>
   metaRegex (js ''title'') titled_page = Some (js ''T'') \<and>
   getSubtitles (static_env titled_page []) example_opts = Inr [] \<and>
   (\<exists>d. d \<noteq> [] \<and> getVideoDetails (static_env titled_page []) example_opts
            = Inr \<lparr>title = js ''T'', description = d, subtitles = []\<rparr>) \<and>
   page_of (static_env untitled_page []) example_opts = Inr untitled_page \<and>
   \<not> includes_str (js ''captionTracks'') untitled_page \<and>
   metaRegex (js ''title'') untitled_page = None \<and>
   getVideoDetails (static_env untitled_page []) example_opts
     = Inl (Error (js ''No video found for: '' @ videoID example_opts))"
proof -
  note a = no_marker_no_subtitles [OF example_opts_fields(3) titled_page_marker,
      of "[]"]
  note b = no_marker_no_subtitles [OF example_opts_fields(3) untitled_page_marker,
      of "[]"]
  have "js ''T'' \<noteq> []" by simp
  with a titled_page_title
  have "\<exists>d. d \<noteq> [] \<and> getVideoDetails (static_env titled_page []) example_opts
            = Inr \<lparr>title = js ''T'', description = d, subtitles = []\<rparr>"
    by blast
  moreover from a have "getSubtitles (static_env titled_page []) example_opts = Inr []"
    by blast
  moreover from b untitled_page_title
  have "getVideoDetails (static_env untitled_page []) example_opts
     = Inl (Error (js ''No video found for: '' @ videoID example_opts))"
    by blast
  ultimately show ?thesis
    using example_opts_fields(3) titled_page_marker titled_page_title untitled_page_marker
      untitled_page_title
    by blast
qed

theorem no_marker_counterexample:
  "page_of (static_env untitled_page []) example_opts = Inr untitled_page \<and>
   \<not> includes_str (js ''captionTracks'') untitled_page \<and>
   getVideoDetails (static_env untitled_page []) example_opts
     = Inl (Error (js ''No video found for: abc''))"
  using example_opts_fields(3) untitled_page_marker untitled_details by blast

text \<open>
  Claim C3, as amended. When the page has no marker, or the track-list pattern does not
  match, or the extracted text parses and the selection rules run to an end with no
  track or with a track whose \<^verbatim>\<open>baseUrl\<close> is missing or falsy, \<open>getSubtitles\<close>
  returns the empty sequence and \<open>getVideoDetails\<close> (given a non-empty title) returns it
  with the title and a description.
\<close>

theorem missing_tracks_degrade:
  assumes "page_of env opts = Inr data"
    and "\<not> includes_str (js ''captionTracks'') data \<or>
         captionTracksRegex data = None \<or>
         (\<exists>j tracks sel. captionTracksRegex data = Some j \<and> JSON_parse j = Inr tracks \<and>
            details_find env (requested_lang opts) tracks = Inr sel \<and>
            \<not> truthy_u (optional_baseUrl sel))"
  shows "getSubtitles env opts = Inr [] \<and>
     (\<forall>t. metaRegex (js ''title'') data = Some t \<and> t \<noteq> [] \<longrightarrow>
        (\<exists>d. d \<noteq> [] \<and>
           getVideoDetails env opts = Inr \<lparr>title = t, description = d, subtitles = []\<rparr>))"
proof -
  from assms(2)
  have s: "subtitles_of_page env (videoID opts) (requested_lang opts) data = Inr []"
    by (auto intro: subtitles_no_marker subtitles_no_match subtitles_no_track)
  show ?thesis
  proof (intro conjI allI impI)
    show "getSubtitles env opts = Inr []"
      by (simp add: getSubtitles_page assms(1) s)
  next
    fix t
    assume "metaRegex (js ''title'') data = Some t \<and> t \<noteq> []"
    then show "\<exists>d. d \<noteq> [] \<and>
       getVideoDetails env opts = Inr \<lparr>title = t, description = d, subtitles = []\<rparr>"
      using details_empty [of data t env "videoID opts" "requested_lang opts"]
      by (simp add: getVideoDetails_page assms(1) s)
  qed
qed

theorem missing_tracks_degrade_witness:
  "page_of (static_env example_page example_doc) french_opts = Inr example_page \<and>
   details_find (static_env example_page example_doc) (requested_lang french_opts)
     (JArray [JObject [(js ''baseUrl'', JString (js ''u'')), (js ''vssId'', JString (js ''a.en''))],
              JObject [(js ''baseUrl'', JString (js ''v'')), (js ''vssId'', JString (js ''en-US''))],
              JObject [(js ''baseUrl'', JString (js ''w'')), (js ''vssId'', JString (js ''.en''))]])
     = Inr None \<and>
   getSubtitles (static_env example_page example_doc) french_opts = Inr [] \<and>
   (\<exists>d. d \<noteq> [] \<and> getVideoDetails (static_env example_page example_doc) french_opts
            = Inr \<lparr>title = js ''My video'', description = d, subtitles = []\<rparr>) \<and>
   page_of (static_env nourl_page example_doc) example_opts = Inr nourl_page \<and>
   getSubtitles (static_env nourl_page example_doc) example_opts = Inr [] \<and>
   (\<exists>d. d \<noteq> [] \<and> getVideoDetails (static_env nourl_page example_doc) example_opts
            = Inr \<lparr>title = js ''T'', description = d, subtitles = []\<rparr>)"
proof -
  let ?tracks = "JArray [JObject [(js ''baseUrl'', JString (js ''u'')), (js ''vssId'', JString (js ''a.en''))],
              JObject [(js ''baseUrl'', JString (js ''v'')), (js ''vssId'', JString (js ''en-US''))],
              JObject [(js ''baseUrl'', JString (js ''w'')), (js ''vssId'', JString (js ''.en''))]]"
  have n: "\<not> truthy_u (optional_baseUrl None)" by (simp add: track_defs)
  have f: "details_find (static_env example_page example_doc) (requested_lang french_opts) ?tracks
             = Inr None"
    by (simp only: french_opts_fields french_tracks_find)
  have "\<exists>j tracks sel. captionTracksRegex example_page = Some j \<and> JSON_parse j = Inr tracks \<and>
          details_find (static_env example_page example_doc) (requested_lang french_opts) tracks
            = Inr sel \<and> \<not> truthy_u (optional_baseUrl sel)"
    using example_page_tracks example_tracks_json f n by blast
  then have a: "getSubtitles (static_env example_page example_doc) french_opts = Inr [] \<and>
     (\<forall>t. metaRegex (js ''title'') example_page = Some t \<and> t \<noteq> [] \<longrightarrow>
        (\<exists>d. d \<noteq> [] \<and> getVideoDetails (static_env example_page example_doc) french_opts
                 = Inr \<lparr>title = t, description = d, subtitles = []\<rparr>))"
    by (intro missing_tracks_degrade [OF french_opts_fields(3)]) blast
  have g: "details_find (static_env nourl_page example_doc) (requested_lang example_opts)
             (JArray [JObject [(js ''vssId'', JString (js ''.en'')), (js ''baseUrl'', JString [])]])
           = Inr (Some (JObject [(js ''vssId'', JString (js ''.en'')), (js ''baseUrl'', JString [])]))"
    by (simp only: example_opts_fields nourl_tracks_find)
  have "\<exists>j tracks sel. captionTracksRegex nourl_page = Some j \<and> JSON_parse j = Inr tracks \<and>
          details_find (static_env nourl_page example_doc) (requested_lang example_opts) tracks
            = Inr sel \<and> \<not> truthy_u (optional_baseUrl sel)"
    using nourl_page_tracks nourl_tracks_json g nourl_baseUrl by blast
  then have b: "getSubtitles (static_env nourl_page example_doc) example_opts = Inr [] \<and>
     (\<forall>t. metaRegex (js ''title'') nourl_page = Some t \<and> t \<noteq> [] \<longrightarrow>
        (\<exists>d. d \<noteq> [] \<and> getVideoDetails (static_env nourl_page example_doc) example_opts
                 = Inr \<lparr>title = t, description = d, subtitles = []\<rparr>))"
    by (intro missing_tracks_degrade [OF example_opts_fields(3)]) blast
  have ne: "js ''My video'' \<noteq> []" "js ''T'' \<noteq> []" by simp_all
  from a example_page_title ne(1)
  have a2: "\<exists>d. d \<noteq> [] \<and> getVideoDetails (static_env example_page example_doc) french_opts
            = Inr \<lparr>title = js ''My video'', description = d, subtitles = []\<rparr>"
    by blast
  from b nourl_page_title ne(2)
  have b2: "\<exists>d. d \<noteq> [] \<and> getVideoDetails (static_env nourl_page example_doc) example_opts
            = Inr \<lparr>title = js ''T'', description = d, subtitles = []\<rparr>"
    by blast
  from a b a2 b2 f french_opts_fields(3) example_opts_fields(3) show ?thesis by blast
qed

theorem malformed_track_list_counterexample:
  "page_of (static_env broken_page []) example_opts = Inr broken_page \<and>
   captionTracksRegex broken_page
     = Some (js ''[{\"baseUrl\":\"u\",\"name\":{\"runs\":[{\"text\":\"English\"}]'') \<and>
   JSON_parse (js ''[{\"baseUrl\":\"u\",\"name\":{\"runs\":[{\"text\":\"English\"}]'')
     = Inl SyntaxError \<and>
   getSubtitles (static_env broken_page []) example_opts = Inl SyntaxError"
  using example_opts_fields(3) broken_page_tracks broken_tracks_json broken_getSubtitles
  by blast

text \<open>
  Claim C2, as amended. When the title pattern does not match, or matches an empty
  title, \<open>getVideoDetails\<close> fails with \<^verbatim>\<open>No video found for: \<close> followed by the
  identifier. With a non-empty title every other failure comes after the track list has
  been extracted: the marker is there and the pattern has matched, and the error is the
  one of \<^verbatim>\<open>JSON.parse\<close> on the extracted text, of the selection rules on the parsed
  list, of the fetch of the caption document or of reading its body.
\<close>

theorem title_guard_and_later_failures:
  assumes "page_of env opts = Inr data"
  shows "(metaRegex (js ''title'') data = None \<or> metaRegex (js ''title'') data = Some [] \<longrightarrow>
        getVideoDetails env opts = Inl (Error (js ''No video found for: '' @ videoID opts))) \<and>
     (\<forall>t e. metaRegex (js ''title'') data = Some t \<and> t \<noteq> [] \<and>
           getVideoDetails env opts = Inl e \<longrightarrow>
        includes_str (js ''captionTracks'') data \<and>
        (\<exists>j. captionTracksRegex data = Some j \<and>
           (JSON_parse j = Inl e \<or>
            (\<exists>tracks. JSON_parse j = Inr tracks \<and>
               (details_find env (requested_lang opts) tracks = Inl e \<or>
                (\<exists>sel b. details_find env (requested_lang opts) tracks = Inr sel \<and>
                   optional_baseUrl sel = Some b \<and> truthy b \<and>
                   (fetch env b = Inl e \<or> (\<exists>r. fetch env b = Inr r \<and> body r = Inl e))))))))"
proof (intro conjI allI impI)
  assume "metaRegex (js ''title'') data = None \<or> metaRegex (js ''title'') data = Some []"
  then show "getVideoDetails env opts = Inl (Error (js ''No video found for: '' @ videoID opts))"
    by (simp add: getVideoDetails_page assms details_no_title)
next
  fix t e
  assume a: "metaRegex (js ''title'') data = Some t \<and> t \<noteq> [] \<and> getVideoDetails env opts = Inl e"
  then have "details_of_page env (videoID opts) (requested_lang opts) data = Inl e"
    by (simp add: getVideoDetails_page assms)
  with a have "subtitles_of_page env (videoID opts) (requested_lang opts) data = Inl e"
    by (auto simp: details_of_page_cases map_sum_id_Inl)
  from subtitles_failure [OF this]
  show "includes_str (js ''captionTracks'') data"
    and "\<exists>j. captionTracksRegex data = Some j \<and>
           (JSON_parse j = Inl e \<or>
            (\<exists>tracks. JSON_parse j = Inr tracks \<and>
               (details_find env (requested_lang opts) tracks = Inl e \<or>
                (\<exists>sel b. details_find env (requested_lang opts) tracks = Inr sel \<and>
                   optional_baseUrl sel = Some b \<and> truthy b \<and>
                   (fetch env b = Inl e \<or> (\<exists>r. fetch env b = Inr r \<and> body r = Inl e))))))"
    by blast+
qed

theorem title_guard_and_later_failures_witness:
  "page_of (static_env untitled_page []) example_opts = Inr untitled_page \<and>
   metaRegex (js ''title'') untitled_page = None \<and>
   getVideoDetails (static_env untitled_page []) example_opts
     = Inl (Error (js ''No video found for: '' @ videoID example_opts)) \<and>
   page_of (static_env broken_page []) example_opts = Inr broken_page \<and>
   metaRegex (js ''title'') broken_page = Some (js ''T'') \<and>
   getVideoDetails (static_env broken_page []) example_opts = Inl SyntaxError \<and>
   includes_str (js ''captionTracks'') broken_page"
proof -
  note a = title_guard_and_later_failures [OF example_opts_fields(3), of untitled_page "[]"]
  note b = title_guard_and_later_failures [OF example_opts_fields(3), of broken_page "[]"]
  from a untitled_page_title
  have 1: "getVideoDetails (static_env untitled_page []) example_opts
     = Inl (Error (js ''No video found for: '' @ videoID example_opts))"
    by blast
  have ne: "js ''T'' \<noteq> []" by simp
  from b broken_page_title ne broken_details
  have 2: "includes_str (js ''captionTracks'') broken_page" by blast
  from 1 2 example_opts_fields(3) untitled_page_title broken_page_title broken_details
  show ?thesis by blast
qed

theorem later_failure_counterexample:
  "page_of (static_env broken_page []) example_opts = Inr broken_page \<and>
   metaRegex (js ''title'') broken_page = Some (js ''T'') \<and>
   getVideoDetails (static_env broken_page []) example_opts = Inl SyntaxError"
  using example_opts_fields(3) broken_page_title broken_details by blast

text \<open>
  Claim C9. When the description pattern does not match, every result of
  \<open>getVideoDetails\<close> has the description \<^verbatim>\<open>No description found\<close>; and with a
  non-empty title it does return, with that description, whenever the subtitles are
  obtained.
\<close>

theorem missing_description_placeholder:
  assumes "page_of env opts = Inr data"
    and "metaRegex (js ''description'') data = None"
  shows "(\<forall>vd. getVideoDetails env opts = Inr vd \<longrightarrow>
            description vd = js ''No description found'') \<and>
     (\<forall>t ls. metaRegex (js ''title'') data = Some t \<and> t \<noteq> [] \<and>
             getSubtitles env opts = Inr ls \<longrightarrow>
        getVideoDetails env opts =
          Inr \<lparr>title = t, description = js ''No description found'', subtitles = ls\<rparr>)"
  by (auto simp: getVideoDetails_page getSubtitles_page assms details_of_page_cases
      map_sum_id_Inr split: option.splits if_splits)

theorem missing_description_placeholder_witness:
  "page_of (static_env example_page example_doc) example_opts = Inr example_page \<and>
   metaRegex (js ''description'') example_page = None \<and>
   metaRegex (js ''title'') example_page = Some (js ''My video'') \<and>
   getSubtitles (static_env example_page example_doc) example_opts
     = Inr [\<lparr>start = js ''0.5'', dur = js ''2.3'', text' = js ''Hello & world''\<rparr>] \<and>
   getVideoDetails (static_env example_page example_doc) example_opts
     = Inr \<lparr>title = js ''My video'', description = js ''No description found'',
            subtitles = [\<lparr>start = js ''0.5'', dur = js ''2.3'', text' = js ''Hello & world''\<rparr>]\<rparr> \<and>
   description \<lparr>title = js ''My video'', description = js ''No description found'',
            subtitles = [\<lparr>start = js ''0.5'', dur = js ''2.3'', text' = js ''Hello & world''\<rparr>]\<rparr>
     = js ''No description found''"
proof -
  note a = missing_description_placeholder [OF example_opts_fields(3) example_page_description,
      of example_doc]
  have ne: "js ''My video'' \<noteq> []" by simp
  from a example_page_title ne example_getSubtitles
  have d: "getVideoDetails (static_env example_page example_doc) example_opts
     = Inr \<lparr>title = js ''My video'', description = js ''No description found'',
            subtitles = [\<lparr>start = js ''0.5'', dur = js ''2.3'', text' = js ''Hello & world''\<rparr>]\<rparr>"
    by blast
  with a have "description \<lparr>title = js ''My video'', description = js ''No description found'',
            subtitles = [\<lparr>start = js ''0.5'', dur = js ''2.3'', text' = js ''Hello & world''\<rparr>]\<rparr>
     = js ''No description found''"
    by blast
  with d example_opts_fields(3) example_page_description example_page_title example_getSubtitles
  show ?thesis by blast
qed

text \<open>
  Claim C1. Track selection is a function of the language code and the track list. On a
  list without a null element (reading a property of null throws) the result is the
  first track whose variant identifier is exactly the dot and the language code; if
  there is none, the first whose identifier is exactly \<^verbatim>\<open>a.\<close> and the language code;
  if there is none either, the result of the loose rule. For the identifiers
  \<^verbatim>\<open>a.en\<close>, \<^verbatim>\<open>en-US\<close>, \<^verbatim>\<open>.en\<close> and the language \<^verbatim>\<open>en\<close> the third track is
  selected. Both entry points select the same way.
\<close>

theorem track_selection_priority:
  assumes "JNull \<notin> set tracks"
  shows "details_find env lang' (JArray tracks) =
       (case List.find (has_vssId (js ''.'' @ lang')) tracks of
          Some t \<Rightarrow> Inr (Some t)
        | None \<Rightarrow>
            (case List.find (has_vssId (js ''a.'' @ lang')) tracks of
               Some t \<Rightarrow> Inr (Some t)
             | None \<Rightarrow> find_js (vssId_matches env lang') tracks)) \<and>
     subtitles_find env lang' (JArray tracks) = details_find env lang' (JArray tracks) \<and>
     details_find env (js ''en'')
       (JArray [JObject [(js ''baseUrl'', b1), (js ''vssId'', JString (js ''a.en''))],
                JObject [(js ''baseUrl'', b2), (js ''vssId'', JString (js ''en-US''))],
                JObject [(js ''baseUrl'', b3), (js ''vssId'', JString (js ''.en''))]])
       = Inr (Some (JObject [(js ''baseUrl'', b3), (js ''vssId'', JString (js ''.en''))]))"
proof (intro conjI)
  show "details_find env lang' (JArray tracks) =
       (case List.find (has_vssId (js ''.'' @ lang')) tracks of
          Some t \<Rightarrow> Inr (Some t)
        | None \<Rightarrow>
            (case List.find (has_vssId (js ''a.'' @ lang')) tracks of
               Some t \<Rightarrow> Inr (Some t)
             | None \<Rightarrow> find_js (vssId_matches env lang') tracks))"
    by (rule details_find_priority [OF assms])
  show "subtitles_find env lang' (JArray tracks) = details_find env lang' (JArray tracks)"
    by (rule subtitles_find_eq)
  show "details_find env (js ''en'')
       (JArray [JObject [(js ''baseUrl'', b1), (js ''vssId'', JString (js ''a.en''))],
                JObject [(js ''baseUrl'', b2), (js ''vssId'', JString (js ''en-US''))],
                JObject [(js ''baseUrl'', b3), (js ''vssId'', JString (js ''.en''))]])
       = Inr (Some (JObject [(js ''baseUrl'', b3), (js ''vssId'', JString (js ''.en''))]))"
    by (simp add: details_find_def track_defs string_defs)
qed

theorem track_selection_priority_witness:
  "JNull \<notin> set [JObject [(js ''vssId'', JString (js ''a.en''))],
                 JObject [(js ''vssId'', JString (js ''en-US''))],
                 JObject [(js ''vssId'', JString (js ''.en''))]] \<and>
   details_find (static_env [] []) (js ''en'')
     (JArray [JObject [(js ''vssId'', JString (js ''a.en''))],
              JObject [(js ''vssId'', JString (js ''en-US''))],
              JObject [(js ''vssId'', JString (js ''.en''))]])
     = Inr (Some (JObject [(js ''vssId'', JString (js ''.en''))])) \<and>
   subtitles_find (static_env [] []) (js ''en'')
     (JArray [JObject [(js ''vssId'', JString (js ''a.en''))],
              JObject [(js ''vssId'', JString (js ''en-US''))],
              JObject [(js ''vssId'', JString (js ''.en''))]])
     = Inr (Some (JObject [(js ''vssId'', JString (js ''.en''))])) \<and>
   JNull \<notin> set [JObject [(js ''vssId'', JString (js ''x.en''))],
                 JObject [(js ''vssId'', JString (js ''a.en''))]] \<and>
   details_find (static_env [] []) (js ''en'')
     (JArray [JObject [(js ''vssId'', JString (js ''x.en''))],
              JObject [(js ''vssId'', JString (js ''a.en''))]])
     = Inr (Some (JObject [(js ''vssId'', JString (js ''a.en''))])) \<and>
   JNull \<notin> set [JObject [(js ''vssId'', JString (js ''en-US''))],
                 JObject [(js ''vssId'', JString (js ''x.en''))]] \<and>
   details_find (static_env [] []) (js ''en'')
     (JArray [JObject [(js ''vssId'', JString (js ''en-US''))],
              JObject [(js ''vssId'', JString (js ''x.en''))]])
     = Inr (Some (JObject [(js ''vssId'', JString (js ''x.en''))]))"
proof -
  let ?a = "JObject [(js ''vssId'', JString (js ''a.en''))]"
  let ?u = "JObject [(js ''vssId'', JString (js ''en-US''))]"
  let ?m = "JObject [(js ''vssId'', JString (js ''.en''))]"
  let ?x = "JObject [(js ''vssId'', JString (js ''x.en''))]"
  let ?E = "static_env [] []"
  have n1: "JNull \<notin> set [?a, ?u, ?m]" and n2: "JNull \<notin> set [?x, ?a]"
    and n3: "JNull \<notin> set [?u, ?x]" by simp_all
  have f1: "List.find (has_vssId (js ''.'' @ js ''en'')) [?a, ?u, ?m] = Some ?m"
    by (simp add: has_vssId_def string_defs)
  have f2: "List.find (has_vssId (js ''.'' @ js ''en'')) [?x, ?a] = None"
    "List.find (has_vssId (js ''a.'' @ js ''en'')) [?x, ?a] = Some ?a"
    by (simp_all add: has_vssId_def string_defs)
  have f3: "List.find (has_vssId (js ''.'' @ js ''en'')) [?u, ?x] = None"
    "List.find (has_vssId (js ''a.'' @ js ''en'')) [?u, ?x] = None"
    "find_js (vssId_matches ?E (js ''en'')) [?u, ?x] = Inr (Some ?x)"
    by (simp_all add: has_vssId_def track_defs string_defs regex_defs)
  note t1 = track_selection_priority [OF n1, of ?E "js ''en''" JNull JNull JNull]
  note t2 = track_selection_priority [OF n2, of ?E "js ''en''" JNull JNull JNull]
  note t3 = track_selection_priority [OF n3, of ?E "js ''en''" JNull JNull JNull]
  from t1 have d1: "details_find ?E (js ''en'') (JArray [?a, ?u, ?m]) = Inr (Some ?m)"
    by (simp only: f1 option.case)
  with t1 have s1: "subtitles_find ?E (js ''en'') (JArray [?a, ?u, ?m]) = Inr (Some ?m)"
    by simp
  from t2 have d2: "details_find ?E (js ''en'') (JArray [?x, ?a]) = Inr (Some ?a)"
    by (simp only: f2 option.case)
  from t3 have d3: "details_find ?E (js ''en'') (JArray [?u, ?x]) = Inr (Some ?x)"
    by (simp only: f3 option.case)
  from n1 n2 n3 d1 s1 d2 d3 show ?thesis by blast
qed

text \<open>
  Claim C6 fails on the code. The loose rule hands the string \<^verbatim>\<open>`.${lang}`\<close> to
  \<^verbatim>\<open>String.prototype.match\<close>, which compiles it as a regular expression: its dot
  matches any code unit, so the identifier \<^verbatim>\<open>xen\<close>, which does not contain
  \<^verbatim>\<open>.en\<close>, is selected for the language \<^verbatim>\<open>en\<close> by both entry points.
\<close>

theorem loose_rule_dot_is_wildcard:
  "\<not> includes_str (js ''.en'') (js ''xen'') \<and>
   vssId_matches env (js ''en'') (JObject [(js ''baseUrl'', JString (js ''u'')), (js ''vssId'', JString (js ''xen''))])
     = Inr True \<and>
   details_find env (js ''en'')
     (JArray [JObject [(js ''baseUrl'', JString (js ''u'')), (js ''vssId'', JString (js ''xen''))]])
     = Inr (Some (JObject [(js ''baseUrl'', JString (js ''u'')), (js ''vssId'', JString (js ''xen''))])) \<and>
   subtitles_find env (js ''en'')
     (JArray [JObject [(js ''baseUrl'', JString (js ''u'')), (js ''vssId'', JString (js ''xen''))]])
     = Inr (Some (JObject [(js ''baseUrl'', JString (js ''u'')), (js ''vssId'', JString (js ''xen''))]))"
  by (simp add: subtitles_find_def details_find_def track_defs string_defs regex_defs)

end
